theory Spec2Isabelle
  imports Complex_Main "HOL-Library.Log_Nat"
begin

section \<open>Text\<close>

text \<open>
  A Python \<open>str\<close> is a sequence of Unicode code points, so text is a list of code
  points here (\<open>len\<close> is \<open>length\<close>). \<open>ustr\<close> reads an ASCII literal.
\<close>

type_synonym ustring = "nat list"

definition ustr :: "string \<Rightarrow> ustring" where
  "ustr s = map of_char s"

text \<open>The literal of lines 64 and 71, and the placeholder texts of line 43.\<close>

definition section_marker :: ustring where
  "section_marker = ustr ''Kode Wilayah Provinsi''"

definition hyphen :: ustring where
  "hyphen = [45]"

definition em_dash :: ustring where
  "em_dash = [8212]"

definition en_dash :: ustring where
  "en_dash = [8211]"

text \<open>
  \<open>str.isspace\<close> of one code point: the characters \<open>str.strip()\<close> removes
  (Unicode 14, the whitespace and the separators B, S, WS of the bidirectional classes).
\<close>

definition is_space :: "nat \<Rightarrow> bool" where
  "is_space c \<longleftrightarrow>
     (9 \<le> c \<and> c \<le> 13) \<or> (28 \<le> c \<and> c \<le> 32) \<or> c = 133 \<or> c = 160 \<or> c = 5760 \<or>
     (8192 \<le> c \<and> c \<le> 8202) \<or> c = 8232 \<or> c = 8233 \<or> c = 8239 \<or> c = 8287 \<or> c = 12288"

definition py_strip :: "ustring \<Rightarrow> ustring" where
  "py_strip s = rev (dropWhile is_space (rev (dropWhile is_space s)))"

definition startswith :: "ustring \<Rightarrow> ustring \<Rightarrow> bool" where
  "startswith s p \<longleftrightarrow> take (length p) s = p"

text \<open>
  \<open>Series.str.contains(pat)\<close> with a pattern that has no regular-expression
  metacharacter, as the marker: \<open>pat\<close> occurs in \<open>s\<close> at some position.
\<close>

fun str_contains :: "ustring \<Rightarrow> ustring \<Rightarrow> bool" where
  "str_contains [] p = (p = [])"
| "str_contains (c # cs) p = (startswith (c # cs) p \<or> str_contains cs p)"

text \<open>\<open>s.replace(",", "")\<close>\<close>

definition remove_commas :: "ustring \<Rightarrow> ustring" where
  "remove_commas s = filter (\<lambda>c. c \<noteq> 44) s"

text \<open>
  The decimal digits (general category Nd) come in runs of ten, each run starting at
  its zero; \<open>nd_zeros\<close> lists the zeros of Unicode 14. \<open>decimal_value\<close> is
  \<open>unicodedata.decimal\<close>, with \<open>None\<close> for a character that has none.
\<close>

definition nd_zeros :: "nat list" where
  "nd_zeros =
    [48, 1632, 1776, 1984, 2406, 2534, 2662, 2790, 2918, 3046, 3174, 3302, 3430, 3558,
     3664, 3792, 3872, 4160, 4240, 6112, 6160, 6470, 6608, 6784, 6800, 6992, 7088, 7232,
     7248, 42528, 43216, 43264, 43472, 43504, 43600, 44016, 65296, 66720, 68912, 69734,
     69872, 69942, 70096, 70384, 70736, 70864, 71248, 71360, 71472, 71904, 72016, 72784,
     73040, 73120, 92768, 92864, 93008, 120782, 120792, 120802, 120812, 120822, 123200,
     123632, 125264, 130032]"

definition decimal_value :: "nat \<Rightarrow> nat option" where
  "decimal_value c =
     map_option (\<lambda>z. c - z) (find (\<lambda>z. z \<le> c \<and> c < z + 10) nd_zeros)"

text \<open>
  The characters that are digits without being decimal digits (superscripts, circled
  digits and the like): \<open>str.isdigit\<close> accepts them, \<open>int\<close> does not.
\<close>

definition other_digit_ranges :: "(nat \<times> nat) list" where
  "other_digit_ranges =
    [(178, 179), (185, 185), (4969, 4977), (6618, 6618), (8304, 8304), (8308, 8313),
     (8320, 8329), (9312, 9320), (9332, 9340), (9352, 9360), (9450, 9450), (9461, 9469),
     (9471, 9471), (10102, 10110), (10112, 10120), (10122, 10130), (68160, 68163),
     (69216, 69224), (69714, 69722), (127232, 127242)]"

definition is_digit_char :: "nat \<Rightarrow> bool" where
  "is_digit_char c \<longleftrightarrow>
     decimal_value c \<noteq> None \<or> list_ex (\<lambda>(lo, hi). lo \<le> c \<and> c \<le> hi) other_digit_ranges"

text \<open>\<open>s.isdigit()\<close>: at least one character, and every character a digit.\<close>

definition isdigit :: "ustring \<Rightarrow> bool" where
  "isdigit s \<longleftrightarrow> s \<noteq> [] \<and> list_all is_digit_char s"

text \<open>
  \<open>str.title()\<close> (Unicode 14): a character after a cased character is lower-cased,
  any other character is title-cased. The tables are the interpreter's: the cased and
  the case-ignorable characters as ranges, the lower-case and title-case mappings as
  runs \<open>(first, last, shift, step)\<close> (every \<open>step\<close>-th character from \<open>first\<close> to
  \<open>last\<close> is moved by \<open>shift\<close>), and the characters whose mapping has several
  characters with the first and the rest of it. A character in no table is kept.
\<close>

definition cased_ranges :: "(nat \<times> nat) list" where
  "cased_ranges =
    [(65, 90), (97, 122), (170, 170), (181, 181), (186, 186), (192, 214), (216, 246),
     (248, 442), (444, 447), (452, 659), (661, 696), (704, 705), (736, 740), (837, 837),
     (880, 883), (886, 887), (890, 893), (895, 895), (902, 902), (904, 906), (908, 908),
     (910, 929), (931, 1013), (1015, 1153), (1162, 1327), (1329, 1366), (1376, 1416),
     (4256, 4293), (4295, 4295), (4301, 4301), (4304, 4346), (4349, 4351), (5024, 5109),
     (5112, 5117), (7296, 7304), (7312, 7354), (7357, 7359), (7424, 7615), (7680, 7957),
     (7960, 7965), (7968, 8005), (8008, 8013), (8016, 8023), (8025, 8025), (8027, 8027),
     (8029, 8029), (8031, 8061), (8064, 8116), (8118, 8124), (8126, 8126), (8130, 8132),
     (8134, 8140), (8144, 8147), (8150, 8155), (8160, 8172), (8178, 8180), (8182, 8188),
     (8305, 8305), (8319, 8319), (8336, 8348), (8450, 8450), (8455, 8455), (8458, 8467),
     (8469, 8469), (8473, 8477), (8484, 8484), (8486, 8486), (8488, 8488), (8490, 8493),
     (8495, 8500), (8505, 8505), (8508, 8511), (8517, 8521), (8526, 8526), (8544, 8575),
     (8579, 8580), (9398, 9449), (11264, 11492), (11499, 11502), (11506, 11507),
     (11520, 11557), (11559, 11559), (11565, 11565), (42560, 42605), (42624, 42653),
     (42786, 42887), (42891, 42894), (42896, 42954), (42960, 42961), (42963, 42963),
     (42965, 42969), (42997, 42998), (43000, 43002), (43824, 43866), (43868, 43880),
     (43888, 43967), (64256, 64262), (64275, 64279), (65313, 65338), (65345, 65370),
     (66560, 66639), (66736, 66771), (66776, 66811), (66928, 66938), (66940, 66954),
     (66956, 66962), (66964, 66965), (66967, 66977), (66979, 66993), (66995, 67001),
     (67003, 67004), (67456, 67456), (67459, 67461), (67463, 67504), (67506, 67514),
     (68736, 68786), (68800, 68850), (71840, 71903), (93760, 93823), (119808, 119892),
     (119894, 119964), (119966, 119967), (119970, 119970), (119973, 119974),
     (119977, 119980), (119982, 119993), (119995, 119995), (119997, 120003),
     (120005, 120069), (120071, 120074), (120077, 120084), (120086, 120092),
     (120094, 120121), (120123, 120126), (120128, 120132), (120134, 120134),
     (120138, 120144), (120146, 120485), (120488, 120512), (120514, 120538),
     (120540, 120570), (120572, 120596), (120598, 120628), (120630, 120654),
     (120656, 120686), (120688, 120712), (120714, 120744), (120746, 120770),
     (120772, 120779), (122624, 122633), (122635, 122654), (125184, 125251),
     (127280, 127305), (127312, 127337), (127344, 127369)]"

definition case_ignorable_ranges :: "(nat \<times> nat) list" where
  "case_ignorable_ranges =
    [(39, 39), (46, 46), (58, 58), (94, 94), (96, 96), (168, 168), (173, 173), (175, 175),
     (180, 180), (183, 184), (688, 879), (884, 885), (890, 890), (900, 901), (903, 903),
     (1155, 1161), (1369, 1369), (1375, 1375), (1425, 1469), (1471, 1471), (1473, 1474),
     (1476, 1477), (1479, 1479), (1524, 1524), (1536, 1541), (1552, 1562), (1564, 1564),
     (1600, 1600), (1611, 1631), (1648, 1648), (1750, 1757), (1759, 1768), (1770, 1773),
     (1807, 1807), (1809, 1809), (1840, 1866), (1958, 1968), (2027, 2037), (2042, 2042),
     (2045, 2045), (2070, 2093), (2137, 2139), (2184, 2184), (2192, 2193), (2200, 2207),
     (2249, 2306), (2362, 2362), (2364, 2364), (2369, 2376), (2381, 2381), (2385, 2391),
     (2402, 2403), (2417, 2417), (2433, 2433), (2492, 2492), (2497, 2500), (2509, 2509),
     (2530, 2531), (2558, 2558), (2561, 2562), (2620, 2620), (2625, 2626), (2631, 2632),
     (2635, 2637), (2641, 2641), (2672, 2673), (2677, 2677), (2689, 2690), (2748, 2748),
     (2753, 2757), (2759, 2760), (2765, 2765), (2786, 2787), (2810, 2815), (2817, 2817),
     (2876, 2876), (2879, 2879), (2881, 2884), (2893, 2893), (2901, 2902), (2914, 2915),
     (2946, 2946), (3008, 3008), (3021, 3021), (3072, 3072), (3076, 3076), (3132, 3132),
     (3134, 3136), (3142, 3144), (3146, 3149), (3157, 3158), (3170, 3171), (3201, 3201),
     (3260, 3260), (3263, 3263), (3270, 3270), (3276, 3277), (3298, 3299), (3328, 3329),
     (3387, 3388), (3393, 3396), (3405, 3405), (3426, 3427), (3457, 3457), (3530, 3530),
     (3538, 3540), (3542, 3542), (3633, 3633), (3636, 3642), (3654, 3662), (3761, 3761),
     (3764, 3772), (3782, 3782), (3784, 3789), (3864, 3865), (3893, 3893), (3895, 3895),
     (3897, 3897), (3953, 3966), (3968, 3972), (3974, 3975), (3981, 3991), (3993, 4028),
     (4038, 4038), (4141, 4144), (4146, 4151), (4153, 4154), (4157, 4158), (4184, 4185),
     (4190, 4192), (4209, 4212), (4226, 4226), (4229, 4230), (4237, 4237), (4253, 4253),
     (4348, 4348), (4957, 4959), (5906, 5908), (5938, 5939), (5970, 5971), (6002, 6003),
     (6068, 6069), (6071, 6077), (6086, 6086), (6089, 6099), (6103, 6103), (6109, 6109),
     (6155, 6159), (6211, 6211), (6277, 6278), (6313, 6313), (6432, 6434), (6439, 6440),
     (6450, 6450), (6457, 6459), (6679, 6680), (6683, 6683), (6742, 6742), (6744, 6750),
     (6752, 6752), (6754, 6754), (6757, 6764), (6771, 6780), (6783, 6783), (6823, 6823),
     (6832, 6862), (6912, 6915), (6964, 6964), (6966, 6970), (6972, 6972), (6978, 6978),
     (7019, 7027), (7040, 7041), (7074, 7077), (7080, 7081), (7083, 7085), (7142, 7142),
     (7144, 7145), (7149, 7149), (7151, 7153), (7212, 7219), (7222, 7223), (7288, 7293),
     (7376, 7378), (7380, 7392), (7394, 7400), (7405, 7405), (7412, 7412), (7416, 7417),
     (7468, 7530), (7544, 7544), (7579, 7679), (8125, 8125), (8127, 8129), (8141, 8143),
     (8157, 8159), (8173, 8175), (8189, 8190), (8203, 8207), (8216, 8217), (8228, 8228),
     (8231, 8231), (8234, 8238), (8288, 8292), (8294, 8303), (8305, 8305), (8319, 8319),
     (8336, 8348), (8400, 8432), (11388, 11389), (11503, 11505), (11631, 11631),
     (11647, 11647), (11744, 11775), (11823, 11823), (12293, 12293), (12330, 12333),
     (12337, 12341), (12347, 12347), (12441, 12446), (12540, 12542), (40981, 40981),
     (42232, 42237), (42508, 42508), (42607, 42610), (42612, 42621), (42623, 42623),
     (42652, 42655), (42736, 42737), (42752, 42785), (42864, 42864), (42888, 42890),
     (42994, 42996), (43000, 43001), (43010, 43010), (43014, 43014), (43019, 43019),
     (43045, 43046), (43052, 43052), (43204, 43205), (43232, 43249), (43263, 43263),
     (43302, 43309), (43335, 43345), (43392, 43394), (43443, 43443), (43446, 43449),
     (43452, 43453), (43471, 43471), (43493, 43494), (43561, 43566), (43569, 43570),
     (43573, 43574), (43587, 43587), (43596, 43596), (43632, 43632), (43644, 43644),
     (43696, 43696), (43698, 43700), (43703, 43704), (43710, 43711), (43713, 43713),
     (43741, 43741), (43756, 43757), (43763, 43764), (43766, 43766), (43867, 43871),
     (43881, 43883), (44005, 44005), (44008, 44008), (44013, 44013), (64286, 64286),
     (64434, 64450), (65024, 65039), (65043, 65043), (65056, 65071), (65106, 65106),
     (65109, 65109), (65279, 65279), (65287, 65287), (65294, 65294), (65306, 65306),
     (65342, 65342), (65344, 65344), (65392, 65392), (65438, 65439), (65507, 65507),
     (65529, 65531), (66045, 66045), (66272, 66272), (66422, 66426), (67456, 67461),
     (67463, 67504), (67506, 67514), (68097, 68099), (68101, 68102), (68108, 68111),
     (68152, 68154), (68159, 68159), (68325, 68326), (68900, 68903), (69291, 69292),
     (69446, 69456), (69506, 69509), (69633, 69633), (69688, 69702), (69744, 69744),
     (69747, 69748), (69759, 69761), (69811, 69814), (69817, 69818), (69821, 69821),
     (69826, 69826), (69837, 69837), (69888, 69890), (69927, 69931), (69933, 69940),
     (70003, 70003), (70016, 70017), (70070, 70078), (70089, 70092), (70095, 70095),
     (70191, 70193), (70196, 70196), (70198, 70199), (70206, 70206), (70367, 70367),
     (70371, 70378), (70400, 70401), (70459, 70460), (70464, 70464), (70502, 70508),
     (70512, 70516), (70712, 70719), (70722, 70724), (70726, 70726), (70750, 70750),
     (70835, 70840), (70842, 70842), (70847, 70848), (70850, 70851), (71090, 71093),
     (71100, 71101), (71103, 71104), (71132, 71133), (71219, 71226), (71229, 71229),
     (71231, 71232), (71339, 71339), (71341, 71341), (71344, 71349), (71351, 71351),
     (71453, 71455), (71458, 71461), (71463, 71467), (71727, 71735), (71737, 71738),
     (71995, 71996), (71998, 71998), (72003, 72003), (72148, 72151), (72154, 72155),
     (72160, 72160), (72193, 72202), (72243, 72248), (72251, 72254), (72263, 72263),
     (72273, 72278), (72281, 72283), (72330, 72342), (72344, 72345), (72752, 72758),
     (72760, 72765), (72767, 72767), (72850, 72871), (72874, 72880), (72882, 72883),
     (72885, 72886), (73009, 73014), (73018, 73018), (73020, 73021), (73023, 73029),
     (73031, 73031), (73104, 73105), (73109, 73109), (73111, 73111), (73459, 73460),
     (78896, 78904), (92912, 92916), (92976, 92982), (92992, 92995), (94031, 94031),
     (94095, 94111), (94176, 94177), (94179, 94180), (110576, 110579), (110581, 110587),
     (110589, 110590), (113821, 113822), (113824, 113827), (118528, 118573),
     (118576, 118598), (119143, 119145), (119155, 119170), (119173, 119179),
     (119210, 119213), (119362, 119364), (121344, 121398), (121403, 121452),
     (121461, 121461), (121476, 121476), (121499, 121503), (121505, 121519),
     (122880, 122886), (122888, 122904), (122907, 122913), (122915, 122916),
     (122918, 122922), (123184, 123197), (123566, 123566), (123628, 123631),
     (125136, 125142), (125252, 125259), (127995, 127999), (917505, 917505),
     (917536, 917631), (917760, 917999)]"

definition lower_runs :: "(nat \<times> nat \<times> int \<times> nat) list" where
  "lower_runs =
    [(65, 90, 32, 1), (192, 214, 32, 1), (216, 222, 32, 1), (256, 302, 1, 2),
     (306, 310, 1, 2), (313, 327, 1, 2), (330, 374, 1, 2), (376, 376, - 121, 1),
     (377, 381, 1, 2), (385, 385, 210, 1), (386, 388, 1, 2), (390, 390, 206, 1),
     (391, 391, 1, 1), (393, 394, 205, 1), (395, 395, 1, 1), (398, 398, 79, 1),
     (399, 399, 202, 1), (400, 400, 203, 1), (401, 401, 1, 1), (403, 403, 205, 1),
     (404, 404, 207, 1), (406, 406, 211, 1), (407, 407, 209, 1), (408, 408, 1, 1),
     (412, 412, 211, 1), (413, 413, 213, 1), (415, 415, 214, 1), (416, 420, 1, 2),
     (422, 422, 218, 1), (423, 423, 1, 1), (425, 425, 218, 1), (428, 428, 1, 1),
     (430, 430, 218, 1), (431, 431, 1, 1), (433, 434, 217, 1), (435, 437, 1, 2),
     (439, 439, 219, 1), (440, 440, 1, 1), (444, 444, 1, 1), (452, 452, 2, 1),
     (453, 453, 1, 1), (455, 455, 2, 1), (456, 456, 1, 1), (458, 458, 2, 1),
     (459, 475, 1, 2), (478, 494, 1, 2), (497, 497, 2, 1), (498, 500, 1, 2),
     (502, 502, - 97, 1), (503, 503, - 56, 1), (504, 542, 1, 2), (544, 544, - 130, 1),
     (546, 562, 1, 2), (570, 570, 10795, 1), (571, 571, 1, 1), (573, 573, - 163, 1),
     (574, 574, 10792, 1), (577, 577, 1, 1), (579, 579, - 195, 1), (580, 580, 69, 1),
     (581, 581, 71, 1), (582, 590, 1, 2), (880, 882, 1, 2), (886, 886, 1, 1),
     (895, 895, 116, 1), (902, 902, 38, 1), (904, 906, 37, 1), (908, 908, 64, 1),
     (910, 911, 63, 1), (913, 929, 32, 1), (931, 939, 32, 1), (975, 975, 8, 1),
     (984, 1006, 1, 2), (1012, 1012, - 60, 1), (1015, 1015, 1, 1), (1017, 1017, - 7, 1),
     (1018, 1018, 1, 1), (1021, 1023, - 130, 1), (1024, 1039, 80, 1), (1040, 1071, 32, 1),
     (1120, 1152, 1, 2), (1162, 1214, 1, 2), (1216, 1216, 15, 1), (1217, 1229, 1, 2),
     (1232, 1326, 1, 2), (1329, 1366, 48, 1), (4256, 4293, 7264, 1), (4295, 4295, 7264, 1),
     (4301, 4301, 7264, 1), (5024, 5103, 38864, 1), (5104, 5109, 8, 1),
     (7312, 7354, - 3008, 1), (7357, 7359, - 3008, 1), (7680, 7828, 1, 2),
     (7838, 7838, - 7615, 1), (7840, 7934, 1, 2), (7944, 7951, - 8, 1),
     (7960, 7965, - 8, 1), (7976, 7983, - 8, 1), (7992, 7999, - 8, 1),
     (8008, 8013, - 8, 1), (8025, 8031, - 8, 2), (8040, 8047, - 8, 1),
     (8072, 8079, - 8, 1), (8088, 8095, - 8, 1), (8104, 8111, - 8, 1),
     (8120, 8121, - 8, 1), (8122, 8123, - 74, 1), (8124, 8124, - 9, 1),
     (8136, 8139, - 86, 1), (8140, 8140, - 9, 1), (8152, 8153, - 8, 1),
     (8154, 8155, - 100, 1), (8168, 8169, - 8, 1), (8170, 8171, - 112, 1),
     (8172, 8172, - 7, 1), (8184, 8185, - 128, 1), (8186, 8187, - 126, 1),
     (8188, 8188, - 9, 1), (8486, 8486, - 7517, 1), (8490, 8490, - 8383, 1),
     (8491, 8491, - 8262, 1), (8498, 8498, 28, 1), (8544, 8559, 16, 1), (8579, 8579, 1, 1),
     (9398, 9423, 26, 1), (11264, 11311, 48, 1), (11360, 11360, 1, 1),
     (11362, 11362, - 10743, 1), (11363, 11363, - 3814, 1), (11364, 11364, - 10727, 1),
     (11367, 11371, 1, 2), (11373, 11373, - 10780, 1), (11374, 11374, - 10749, 1),
     (11375, 11375, - 10783, 1), (11376, 11376, - 10782, 1), (11378, 11378, 1, 1),
     (11381, 11381, 1, 1), (11390, 11391, - 10815, 1), (11392, 11490, 1, 2),
     (11499, 11501, 1, 2), (11506, 11506, 1, 1), (42560, 42604, 1, 2),
     (42624, 42650, 1, 2), (42786, 42798, 1, 2), (42802, 42862, 1, 2),
     (42873, 42875, 1, 2), (42877, 42877, - 35332, 1), (42878, 42886, 1, 2),
     (42891, 42891, 1, 1), (42893, 42893, - 42280, 1), (42896, 42898, 1, 2),
     (42902, 42920, 1, 2), (42922, 42922, - 42308, 1), (42923, 42923, - 42319, 1),
     (42924, 42924, - 42315, 1), (42925, 42925, - 42305, 1), (42926, 42926, - 42308, 1),
     (42928, 42928, - 42258, 1), (42929, 42929, - 42282, 1), (42930, 42930, - 42261, 1),
     (42931, 42931, 928, 1), (42932, 42946, 1, 2), (42948, 42948, - 48, 1),
     (42949, 42949, - 42307, 1), (42950, 42950, - 35384, 1), (42951, 42953, 1, 2),
     (42960, 42960, 1, 1), (42966, 42968, 1, 2), (42997, 42997, 1, 1),
     (65313, 65338, 32, 1), (66560, 66599, 40, 1), (66736, 66771, 40, 1),
     (66928, 66938, 39, 1), (66940, 66954, 39, 1), (66956, 66962, 39, 1),
     (66964, 66965, 39, 1), (68736, 68786, 64, 1), (71840, 71871, 32, 1),
     (93760, 93791, 32, 1), (125184, 125217, 34, 1)]"

definition lower_special :: "(nat \<times> nat \<times> nat list) list" where
  "lower_special =
    [(304, 105, [775])]"

definition title_runs :: "(nat \<times> nat \<times> int \<times> nat) list" where
  "title_runs =
    [(97, 122, - 32, 1), (181, 181, 743, 1), (224, 246, - 32, 1), (248, 254, - 32, 1),
     (255, 255, 121, 1), (257, 303, - 1, 2), (305, 305, - 232, 1), (307, 311, - 1, 2),
     (314, 328, - 1, 2), (331, 375, - 1, 2), (378, 382, - 1, 2), (383, 383, - 300, 1),
     (384, 384, 195, 1), (387, 389, - 1, 2), (392, 392, - 1, 1), (396, 396, - 1, 1),
     (402, 402, - 1, 1), (405, 405, 97, 1), (409, 409, - 1, 1), (410, 410, 163, 1),
     (414, 414, 130, 1), (417, 421, - 1, 2), (424, 424, - 1, 1), (429, 429, - 1, 1),
     (432, 432, - 1, 1), (436, 438, - 1, 2), (441, 441, - 1, 1), (445, 445, - 1, 1),
     (447, 447, 56, 1), (452, 452, 1, 1), (454, 454, - 1, 1), (455, 455, 1, 1),
     (457, 457, - 1, 1), (458, 458, 1, 1), (460, 476, - 1, 2), (477, 477, - 79, 1),
     (479, 495, - 1, 2), (497, 497, 1, 1), (499, 501, - 1, 2), (505, 543, - 1, 2),
     (547, 563, - 1, 2), (572, 572, - 1, 1), (575, 576, 10815, 1), (578, 578, - 1, 1),
     (583, 591, - 1, 2), (592, 592, 10783, 1), (593, 593, 10780, 1), (594, 594, 10782, 1),
     (595, 595, - 210, 1), (596, 596, - 206, 1), (598, 599, - 205, 1),
     (601, 601, - 202, 1), (603, 603, - 203, 1), (604, 604, 42319, 1),
     (608, 608, - 205, 1), (609, 609, 42315, 1), (611, 611, - 207, 1),
     (613, 613, 42280, 1), (614, 614, 42308, 1), (616, 616, - 209, 1),
     (617, 617, - 211, 1), (618, 618, 42308, 1), (619, 619, 10743, 1),
     (620, 620, 42305, 1), (623, 623, - 211, 1), (625, 625, 10749, 1),
     (626, 626, - 213, 1), (629, 629, - 214, 1), (637, 637, 10727, 1),
     (640, 640, - 218, 1), (642, 642, 42307, 1), (643, 643, - 218, 1),
     (647, 647, 42282, 1), (648, 648, - 218, 1), (649, 649, - 69, 1), (650, 651, - 217, 1),
     (652, 652, - 71, 1), (658, 658, - 219, 1), (669, 669, 42261, 1), (670, 670, 42258, 1),
     (837, 837, 84, 1), (881, 883, - 1, 2), (887, 887, - 1, 1), (891, 893, 130, 1),
     (940, 940, - 38, 1), (941, 943, - 37, 1), (945, 961, - 32, 1), (962, 962, - 31, 1),
     (963, 971, - 32, 1), (972, 972, - 64, 1), (973, 974, - 63, 1), (976, 976, - 62, 1),
     (977, 977, - 57, 1), (981, 981, - 47, 1), (982, 982, - 54, 1), (983, 983, - 8, 1),
     (985, 1007, - 1, 2), (1008, 1008, - 86, 1), (1009, 1009, - 80, 1), (1010, 1010, 7, 1),
     (1011, 1011, - 116, 1), (1013, 1013, - 96, 1), (1016, 1016, - 1, 1),
     (1019, 1019, - 1, 1), (1072, 1103, - 32, 1), (1104, 1119, - 80, 1),
     (1121, 1153, - 1, 2), (1163, 1215, - 1, 2), (1218, 1230, - 1, 2),
     (1231, 1231, - 15, 1), (1233, 1327, - 1, 2), (1377, 1414, - 48, 1),
     (5112, 5117, - 8, 1), (7296, 7296, - 6254, 1), (7297, 7297, - 6253, 1),
     (7298, 7298, - 6244, 1), (7299, 7300, - 6242, 1), (7301, 7301, - 6243, 1),
     (7302, 7302, - 6236, 1), (7303, 7303, - 6181, 1), (7304, 7304, 35266, 1),
     (7545, 7545, 35332, 1), (7549, 7549, 3814, 1), (7566, 7566, 35384, 1),
     (7681, 7829, - 1, 2), (7835, 7835, - 59, 1), (7841, 7935, - 1, 2), (7936, 7943, 8, 1),
     (7952, 7957, 8, 1), (7968, 7975, 8, 1), (7984, 7991, 8, 1), (8000, 8005, 8, 1),
     (8017, 8023, 8, 2), (8032, 8039, 8, 1), (8048, 8049, 74, 1), (8050, 8053, 86, 1),
     (8054, 8055, 100, 1), (8056, 8057, 128, 1), (8058, 8059, 112, 1),
     (8060, 8061, 126, 1), (8064, 8071, 8, 1), (8080, 8087, 8, 1), (8096, 8103, 8, 1),
     (8112, 8113, 8, 1), (8115, 8115, 9, 1), (8126, 8126, - 7205, 1), (8131, 8131, 9, 1),
     (8144, 8145, 8, 1), (8160, 8161, 8, 1), (8165, 8165, 7, 1), (8179, 8179, 9, 1),
     (8526, 8526, - 28, 1), (8560, 8575, - 16, 1), (8580, 8580, - 1, 1),
     (9424, 9449, - 26, 1), (11312, 11359, - 48, 1), (11361, 11361, - 1, 1),
     (11365, 11365, - 10795, 1), (11366, 11366, - 10792, 1), (11368, 11372, - 1, 2),
     (11379, 11379, - 1, 1), (11382, 11382, - 1, 1), (11393, 11491, - 1, 2),
     (11500, 11502, - 1, 2), (11507, 11507, - 1, 1), (11520, 11557, - 7264, 1),
     (11559, 11559, - 7264, 1), (11565, 11565, - 7264, 1), (42561, 42605, - 1, 2),
     (42625, 42651, - 1, 2), (42787, 42799, - 1, 2), (42803, 42863, - 1, 2),
     (42874, 42876, - 1, 2), (42879, 42887, - 1, 2), (42892, 42892, - 1, 1),
     (42897, 42899, - 1, 2), (42900, 42900, 48, 1), (42903, 42921, - 1, 2),
     (42933, 42947, - 1, 2), (42952, 42954, - 1, 2), (42961, 42961, - 1, 1),
     (42967, 42969, - 1, 2), (42998, 42998, - 1, 1), (43859, 43859, - 928, 1),
     (43888, 43967, - 38864, 1), (65345, 65370, - 32, 1), (66600, 66639, - 40, 1),
     (66776, 66811, - 40, 1), (66967, 66977, - 39, 1), (66979, 66993, - 39, 1),
     (66995, 67001, - 39, 1), (67003, 67004, - 39, 1), (68800, 68850, - 64, 1),
     (71872, 71903, - 32, 1), (93792, 93823, - 32, 1), (125218, 125251, - 34, 1)]"

definition title_special :: "(nat \<times> nat \<times> nat list) list" where
  "title_special =
    [(223, 83, [115]), (329, 700, [78]), (496, 74, [780]), (912, 921, [776, 769]),
     (944, 933, [776, 769]), (1415, 1333, [1410]), (7830, 72, [817]), (7831, 84, [776]),
     (7832, 87, [778]), (7833, 89, [778]), (7834, 65, [702]), (8016, 933, [787]),
     (8018, 933, [787, 768]), (8020, 933, [787, 769]), (8022, 933, [787, 834]),
     (8114, 8122, [837]), (8116, 902, [837]), (8118, 913, [834]), (8119, 913, [834, 837]),
     (8130, 8138, [837]), (8132, 905, [837]), (8134, 919, [834]), (8135, 919, [834, 837]),
     (8146, 921, [776, 768]), (8147, 921, [776, 769]), (8150, 921, [834]),
     (8151, 921, [776, 834]), (8162, 933, [776, 768]), (8163, 933, [776, 769]),
     (8164, 929, [787]), (8166, 933, [834]), (8167, 933, [776, 834]), (8178, 8186, [837]),
     (8180, 911, [837]), (8182, 937, [834]), (8183, 937, [834, 837]), (64256, 70, [102]),
     (64257, 70, [105]), (64258, 70, [108]), (64259, 70, [102, 105]),
     (64260, 70, [102, 108]), (64261, 83, [116]), (64262, 83, [116]),
     (64275, 1348, [1398]), (64276, 1348, [1381]), (64277, 1348, [1387]),
     (64278, 1358, [1398]), (64279, 1348, [1389])]"

definition in_ranges :: "nat \<Rightarrow> (nat \<times> nat) list \<Rightarrow> bool" where
  "in_ranges c rs \<longleftrightarrow> list_ex (\<lambda>(lo, hi). lo \<le> c \<and> c \<le> hi) rs"

definition is_cased :: "nat \<Rightarrow> bool" where
  "is_cased c \<longleftrightarrow> in_ranges c cased_ranges"

definition is_case_ignorable :: "nat \<Rightarrow> bool" where
  "is_case_ignorable c \<longleftrightarrow> in_ranges c case_ignorable_ranges"

definition shifted :: "nat \<Rightarrow> (nat \<times> nat \<times> int \<times> nat) list \<Rightarrow> nat" where
  "shifted c runs =
     (case find (\<lambda>(lo, hi, d, st). lo \<le> c \<and> c \<le> hi \<and> (c - lo) mod st = 0) runs of
        None \<Rightarrow> c
      | Some (lo, hi, d, st) \<Rightarrow> nat (int c + d))"

definition full_mapping ::
  "(nat \<times> nat \<times> nat list) list \<Rightarrow> (nat \<times> nat \<times> int \<times> nat) list \<Rightarrow> nat \<Rightarrow> ustring" where
  "full_mapping special runs c =
     (case map_of special c of
        None \<Rightarrow> [shifted c runs]
      | Some (first, rest) \<Rightarrow> first # rest)"

definition to_title_full :: "nat \<Rightarrow> ustring" where
  "to_title_full c = full_mapping title_special title_runs c"

definition to_lower_full :: "nat \<Rightarrow> ustring" where
  "to_lower_full c = full_mapping lower_special lower_runs c"

text \<open>
  The capital sigma (931) is lower-cased to the final sigma (962) when a cased
  character stands before it, case-ignorable characters skipped, and none stands
  after it; to the small sigma (963) otherwise. \<open>seen\<close> is the text before the
  character, last character first, \<open>ahead\<close> the text after it.
\<close>

definition final_sigma :: "ustring \<Rightarrow> ustring \<Rightarrow> bool" where
  "final_sigma seen ahead \<longleftrightarrow>
     (case dropWhile is_case_ignorable seen of [] \<Rightarrow> False | c # _ \<Rightarrow> is_cased c) \<and>
     (case dropWhile is_case_ignorable ahead of [] \<Rightarrow> True | c # _ \<Rightarrow> \<not> is_cased c)"

definition lower_at :: "ustring \<Rightarrow> nat \<Rightarrow> ustring \<Rightarrow> ustring" where
  "lower_at seen c ahead =
     (if c = 931 then [if final_sigma seen ahead then 962 else 963] else to_lower_full c)"

fun title_from :: "ustring \<Rightarrow> ustring \<Rightarrow> ustring" where
  "title_from seen [] = []"
| "title_from seen (c # ahead) =
     (if seen \<noteq> [] \<and> is_cased (hd seen) then lower_at seen c ahead else to_title_full c) @
     title_from (c # seen) ahead"

definition py_title :: "ustring \<Rightarrow> ustring" where
  "py_title s = title_from [] s"

section \<open>Numbers\<close>

subsection \<open>Decimal text of integers\<close>

fun digits_of_nat :: "nat \<Rightarrow> ustring" where
  "digits_of_nat n = (if n < 10 then [48 + n] else digits_of_nat (n div 10) @ [48 + n mod 10])"

declare digits_of_nat.simps [simp del]

text \<open>\<open>str(i)\<close> of an \<open>int\<close>\<close>

definition str_of_int :: "int \<Rightarrow> ustring" where
  "str_of_int i = (if i < 0 then 45 # digits_of_nat (nat (- i)) else digits_of_nat (nat i))"

text \<open>The number a string of ASCII digits denotes.\<close>

definition dec_value :: "ustring \<Rightarrow> nat" where
  "dec_value ds = foldl (\<lambda>a d. 10 * a + (d - 48)) 0 ds"

definition ascii_digit :: "nat \<Rightarrow> bool" where
  "ascii_digit c \<longleftrightarrow> 48 \<le> c \<and> c \<le> 57"

subsection \<open>Double-precision floats\<close>

text \<open>
  A \<open>float\<close> is an IEEE 754 binary64 value: a finite one is the rational it denotes,
  with \<open>Fin 0\<close> for the zero 0.0 and \<open>NZero\<close> for the zero -0.0, next to the
  infinities and NaN. \<open>round_double\<close> rounds a rational to the nearest double, ties
  to the even significand, as the conversions and the addition of the interpreter do;
  a negative number too small for a double rounds to -0.0.
\<close>

datatype pyfloat = Fin rat | NZero | PInf | NInf | NaN

definition pow2 :: "int \<Rightarrow> rat" where
  "pow2 e = (if 0 \<le> e then 2 ^ nat e else 1 / 2 ^ nat (- e))"

definition pow10 :: "int \<Rightarrow> rat" where
  "pow10 e = (if 0 \<le> e then 10 ^ nat e else 1 / 10 ^ nat (- e))"

text \<open>\<open>ilog2 a\<close> is the \<open>k\<close> with \<open>2 ^ k \<le> a < 2 ^ (k + 1)\<close>, for a positive \<open>a\<close>.\<close>

definition ilog2 :: "rat \<Rightarrow> int" where
  "ilog2 a =
     (let (p, q) = quotient_of a; k = bitlen p - bitlen q
      in if pow2 k \<le> a then k else k - 1)"

definition round_half_even :: "rat \<Rightarrow> int" where
  "round_half_even x =
     (let f = \<lfloor>x\<rfloor>; r = x - of_int f
      in if r < 1 / 2 then f else if 1 / 2 < r then f + 1 else if even f then f else f + 1)"

definition round_double :: "rat \<Rightarrow> pyfloat" where
  "round_double x =
     (if x = 0 then Fin 0
      else
        let a = \<bar>x\<bar>;
            e = max (ilog2 a - 52) (- 1074);
            m = round_half_even (a / pow2 e);
            v = of_int m * pow2 e
        in if pow2 1024 \<le> v then (if 0 < x then PInf else NInf)
           else if 0 < x then Fin v
           else if v = 0 then NZero
           else Fin (- v))"

text \<open>The negation of a float.\<close>

definition fneg :: "pyfloat \<Rightarrow> pyfloat" where
  "fneg x =
     (case x of
        Fin v \<Rightarrow> if v = 0 then NZero else Fin (- v)
      | NZero \<Rightarrow> Fin 0
      | PInf \<Rightarrow> NInf
      | NInf \<Rightarrow> PInf
      | NaN \<Rightarrow> NaN)"

text \<open>The addition of two floats.\<close>

fun fadd :: "pyfloat \<Rightarrow> pyfloat \<Rightarrow> pyfloat" where
  "fadd NaN y = NaN"
| "fadd x NaN = NaN"
| "fadd PInf NInf = NaN"
| "fadd NInf PInf = NaN"
| "fadd PInf y = PInf"
| "fadd x PInf = PInf"
| "fadd NInf y = NInf"
| "fadd x NInf = NInf"
| "fadd NZero y = y"
| "fadd x NZero = x"
| "fadd (Fin a) (Fin b) = round_double (a + b)"


subsection \<open>Errors\<close>

text \<open>
  The exceptions of the program, by the place that raises them: \<open>IndexError\<close> is
  \<open>df_raw.columns[0]\<close> on a frame without columns (line 61), \<open>StructureError\<close> the
  \<open>ValueError\<close> of line 77 (the section marker is missing), \<open>LengthMismatch\<close> the
  \<open>ValueError\<close> of the assignment to \<open>df.columns\<close> (line 86), \<open>ValueError\<close> and
  \<open>OverflowError\<close> those of the conversions \<open>float\<close> and \<open>int\<close>.
\<close>

datatype error = IndexError | StructureError | LengthMismatch | ValueError | OverflowError

subsection \<open>Reading numbers from text\<close>

text \<open>
  \<open>float(s)\<close> and \<open>int(s)\<close> first turn every decimal digit into its ASCII digit and
  every non-ASCII space into a blank (another non-ASCII character becomes \<open>?\<close>,
  which no number contains), then drop the ASCII whitespace at both ends. The
  separators 28 to 31 are whitespace for \<open>str.strip\<close> and not for this step.
\<close>

definition to_ascii :: "nat \<Rightarrow> nat" where
  "to_ascii c =
     (if c < 127 then c
      else if is_space c then 32
      else case decimal_value c of Some d \<Rightarrow> 48 + d | None \<Rightarrow> 63)"

text \<open>The lower case of an ASCII letter: the reader compares \<open>inf\<close> and \<open>nan\<close> without case.\<close>

definition to_lower :: "nat \<Rightarrow> nat" where
  "to_lower c = (if 65 \<le> c \<and> c \<le> 90 then c + 32 else c)"

definition ascii_space :: "nat \<Rightarrow> bool" where
  "ascii_space c \<longleftrightarrow> (9 \<le> c \<and> c \<le> 13) \<or> c = 32"

definition number_text :: "ustring \<Rightarrow> ustring" where
  "number_text s =
     rev (dropWhile ascii_space (rev (dropWhile ascii_space (map to_ascii s))))"

text \<open>An underscore stands between two digits only (the argument is the previous character).\<close>

fun underscores_ok :: "nat \<Rightarrow> ustring \<Rightarrow> bool" where
  "underscores_ok prev [] = (prev \<noteq> 95)"
| "underscores_ok prev (c # cs) =
     ((if c = 95 then ascii_digit prev else prev = 95 \<longrightarrow> ascii_digit c) \<and> underscores_ok c cs)"

definition split_sign :: "ustring \<Rightarrow> bool \<times> ustring" where
  "split_sign s =
     (case s of
        [] \<Rightarrow> (False, [])
      | c # cs \<Rightarrow> if c = 45 then (True, cs) else if c = 43 then (False, cs) else (False, s))"

text \<open>
  A decimal numeral: digits with an optional point and an optional exponent, at least
  one digit before or after the point, at least one digit in an exponent.
\<close>

definition parse_exponent :: "ustring \<Rightarrow> int option" where
  "parse_exponent s =
     (case s of
        [] \<Rightarrow> Some 0
      | c # t \<Rightarrow>
          if c = 101 \<or> c = 69 then
            (let (neg, ds) = split_sign t
             in if ds \<noteq> [] \<and> list_all ascii_digit ds
                then Some (if neg then - int (dec_value ds) else int (dec_value ds))
                else None)
          else None)"

definition parse_decimal :: "ustring \<Rightarrow> rat option" where
  "parse_decimal s =
     (let ip = takeWhile ascii_digit s;
          r1 = dropWhile ascii_digit s;
          fp = (case r1 of [] \<Rightarrow> [] | c # t \<Rightarrow> if c = 46 then takeWhile ascii_digit t else []);
          r2 = (case r1 of [] \<Rightarrow> [] | c # t \<Rightarrow> if c = 46 then dropWhile ascii_digit t else r1)
      in if ip = [] \<and> fp = [] then None
         else case parse_exponent r2 of
                None \<Rightarrow> None
              | Some ex \<Rightarrow> Some (of_nat (dec_value (ip @ fp)) * pow10 (ex - int (length fp))))"

text \<open>\<open>float(s)\<close> for a \<open>str\<close>: the value, or the \<open>ValueError\<close> it raises.\<close>

definition float_of_str :: "ustring \<Rightarrow> error + pyfloat" where
  "float_of_str s =
     (let t = number_text s
      in if \<not> underscores_ok 0 t then Inl ValueError
         else
           let (neg, body) = split_sign (filter (\<lambda>c. c \<noteq> 95) t);
               low = map to_lower body
           in if low = ustr ''inf'' \<or> low = ustr ''infinity'' then Inr (if neg then NInf else PInf)
              else if low = ustr ''nan'' then Inr NaN
              else case parse_decimal body of
                     None \<Rightarrow> Inl ValueError
                   | Some q \<Rightarrow> Inr (if neg then fneg (round_double q) else round_double q))"

text \<open>
  \<open>int(s)\<close> for a \<open>str\<close>, in base ten. The interpreter refuses a numeral of more than
  4300 digits (its default limit).
\<close>

definition int_max_str_digits :: nat where
  "int_max_str_digits = 4300"

definition int_of_str :: "ustring \<Rightarrow> error + int" where
  "int_of_str s =
     (let (neg, body) = split_sign (number_text s);
          ds = filter (\<lambda>c. c \<noteq> 95) body
      in if ds = [] \<or> \<not> underscores_ok 0 body \<or> \<not> list_all ascii_digit ds then Inl ValueError
         else if int_max_str_digits < length ds then Inl ValueError
         else Inr (if neg then - int (dec_value ds) else int (dec_value ds)))"

text \<open>\<open>float(i)\<close> for an \<open>int\<close>: an integer beyond the doubles raises.\<close>

definition float_of_int :: "int \<Rightarrow> error + pyfloat" where
  "float_of_int i =
     (case round_double (of_int i) of
        Fin q \<Rightarrow> Inr (Fin q)
      | NZero \<Rightarrow> Inr NZero
      | _ \<Rightarrow> Inl OverflowError)"

text \<open>\<open>int(x)\<close> for a \<open>float\<close>: truncation towards zero.\<close>

definition int_of_float :: "pyfloat \<Rightarrow> error + int" where
  "int_of_float x =
     (case x of
        Fin q \<Rightarrow> Inr (if q < 0 then - \<lfloor>- q\<rfloor> else \<lfloor>q\<rfloor>)
      | NZero \<Rightarrow> Inr 0
      | NaN \<Rightarrow> Inl ValueError
      | _ \<Rightarrow> Inl OverflowError)"

subsection \<open>The text of a float\<close>

text \<open>
  \<open>str(x)\<close> of a float is the shortest decimal numeral that reads back as \<open>x\<close> (of
  at most 17 digits; the nearest to \<open>x\<close> where two are as short), in positional
  notation when its decimal point falls within 16 digits, with an exponent
  otherwise. \<open>decpt a\<close> is the \<open>k\<close> with \<open>10 ^ (k - 1) \<le> a < 10 ^ k\<close>.
\<close>

definition decpt :: "rat \<Rightarrow> int" where
  "decpt a =
     (let (p, q) = quotient_of a;
          k = int (length (digits_of_nat (nat p))) - int (length (digits_of_nat (nat q)))
      in if pow10 k \<le> a then k + 1 else k)"

definition reads_back :: "rat \<Rightarrow> int \<Rightarrow> int \<Rightarrow> bool" where
  "reads_back a e d \<longleftrightarrow> 0 < d \<and> round_double (of_int d * pow10 e) = Fin a"

definition repr_candidate :: "rat \<Rightarrow> nat \<Rightarrow> (int \<times> int) option" where
  "repr_candidate a p =
     (let e = decpt a - int p;
          lo = \<lfloor>a / pow10 e\<rfloor>;
          hi = lo + 1;
          dlo = a - of_int lo * pow10 e;
          dhi = of_int hi * pow10 e - a
      in if reads_back a e lo \<and> reads_back a e hi then
           Some (if dlo < dhi \<or> (dlo = dhi \<and> even lo) then lo else hi, e)
         else if reads_back a e lo then Some (lo, e)
         else if reads_back a e hi then Some (hi, e)
         else None)"

definition shortest_digits :: "rat \<Rightarrow> int \<times> int" where
  "shortest_digits a =
     (case List.map_filter (repr_candidate a) [1 ..< 18] of
        c # _ \<Rightarrow> c
      | [] \<Rightarrow> (round_half_even (a / pow10 (decpt a - 17)), decpt a - 17))"

fun drop_zeros :: "nat \<Rightarrow> int \<Rightarrow> nat \<times> int" where
  "drop_zeros d e = (if d \<noteq> 0 \<and> d mod 10 = 0 then drop_zeros (d div 10) (e + 1) else (d, e))"

declare drop_zeros.simps [simp del]

definition exponent_text :: "int \<Rightarrow> ustring" where
  "exponent_text x =
     (if x < 0 then 45 else 43) #
     (let ds = digits_of_nat (nat \<bar>x\<bar>) in if length ds < 2 then 48 # ds else ds)"

definition format_repr :: "ustring \<Rightarrow> int \<Rightarrow> ustring" where
  "format_repr ds dp =
     (let n = int (length ds)
      in if dp \<le> - 4 \<or> 16 < dp then
           take 1 ds @ (if 1 < n then 46 # drop 1 ds else []) @ [101] @ exponent_text (dp - 1)
         else if dp \<le> 0 then ustr ''0.'' @ replicate (nat (- dp)) 48 @ ds
         else if n \<le> dp then ds @ replicate (nat (dp - n)) 48 @ ustr ''.0''
         else take (nat dp) ds @ [46] @ drop (nat dp) ds)"

definition repr_positive :: "rat \<Rightarrow> ustring" where
  "repr_positive a =
     (let (d, e) = shortest_digits a;
          (d', e') = drop_zeros (nat d) e;
          ds = digits_of_nat d'
      in format_repr ds (int (length ds) + e'))"

definition str_of_float :: "pyfloat \<Rightarrow> ustring" where
  "str_of_float x =
     (case x of
        NaN \<Rightarrow> ustr ''nan''
      | NZero \<Rightarrow> ustr ''-0.0''
      | PInf \<Rightarrow> ustr ''inf''
      | NInf \<Rightarrow> ustr ''-inf''
      | Fin q \<Rightarrow>
          if q = 0 then ustr ''0.0''
          else if q < 0 then 45 # repr_positive (- q)
          else repr_positive q)"

section \<open>The raw grid\<close>

text \<open>
  A cell of the frame \<open>pd.read_excel\<close> returns: missing (\<open>NaN\<close>), a \<open>str\<close>, an
  \<open>int\<close> or a \<open>float\<close>. A frame is rectangular: every row has \<open>ncols\<close> cells, and
  its rows are numbered from 0 (the index \<open>pd.read_excel\<close> gives), so that the label of
  a row is its position.
\<close>

datatype cell = Empty | Text ustring | IntCell int | FloatCell pyfloat

record raw_grid =
  ncols :: nat
  rows :: "cell list list"

definition rectangular :: "raw_grid \<Rightarrow> bool" where
  "rectangular g \<longleftrightarrow> list_all (\<lambda>r. length r = ncols g) (rows g)"

text \<open>The cell of a row at a column position; a rectangular frame has one at every position below \<open>ncols\<close>.\<close>

definition col :: "nat \<Rightarrow> cell list \<Rightarrow> cell" where
  "col k r = (if k < length r then r ! k else Empty)"

text \<open>\<open>pd.isna(x)\<close>\<close>

definition is_na :: "cell \<Rightarrow> bool" where
  "is_na x \<longleftrightarrow> x = Empty \<or> x = FloatCell NaN"

text \<open>\<open>str(x)\<close>, which \<open>astype(str)\<close> applies to every cell.\<close>

definition py_str :: "cell \<Rightarrow> ustring" where
  "py_str x =
     (case x of
        Empty \<Rightarrow> ustr ''nan''
      | Text s \<Rightarrow> s
      | IntCell i \<Rightarrow> str_of_int i
      | FloatCell f \<Rightarrow> str_of_float f)"

section \<open>Numeric coercion\<close>

text \<open>
  \<open>_to_number\<close> (lines 38 to 53). Each \<open>try\<close> is a case on the result of the
  conversion: the first handler catches \<open>ValueError\<close> only, the second every
  exception. The \<open>0\<close> it returns is the float 0.0 in the column, which line 102
  converts with \<open>astype(float)\<close>.
\<close>

definition to_number :: "cell \<Rightarrow> error + pyfloat" where
  "to_number x =
     (if is_na x then Inr (Fin 0)
      else case x of
        Text t \<Rightarrow>
          (let s = py_strip t
           in if s \<in> set [hyphen, em_dash, en_dash, []] then Inr (Fin 0)
              else
                let s = remove_commas s
                in case float_of_str s of
                     Inl e \<Rightarrow> (if e = ValueError then Inr (Fin 0) else Inl e)
                   | Inr v \<Rightarrow> Inr v)
      | IntCell i \<Rightarrow> (case float_of_int i of Inl e \<Rightarrow> Inr (Fin 0) | Inr v \<Rightarrow> Inr v)
      | FloatCell f \<Rightarrow> Inr f
      | Empty \<Rightarrow> Inr (Fin 0))"

section \<open>Extraction\<close>

text \<open>The column names of lines 20 to 34: the code, the name and the eleven indicators.\<close>

definition EXPECTED_COLS :: "string list" where
  "EXPECTED_COLS =
    [''Kode_Provinsi'', ''Provinsi'', ''Jumlah_Kejadian'', ''Meninggal_Hilang'', ''Luka_Luka'',
     ''Mengungsi_Terdampak'', ''Rumah_Rusak_Berat'', ''Rumah_Rusak_Sedang'',
     ''Rumah_Rusak_Ringan'', ''Rumah_Terendam'', ''Fasilitas_Pendidikan'',
     ''Fasilitas_Peribadatan'', ''Fasilitas_Kesehatan'']"

text \<open>A row of the normalised table: the thirteen columns of \<open>EXPECTED_COLS\<close>, the year and the total.\<close>

record province_record =
  Kode_Provinsi :: ustring
  Provinsi :: ustring
  Jumlah_Kejadian :: pyfloat
  Meninggal_Hilang :: pyfloat
  Luka_Luka :: pyfloat
  Mengungsi_Terdampak :: pyfloat
  Rumah_Rusak_Berat :: pyfloat
  Rumah_Rusak_Sedang :: pyfloat
  Rumah_Rusak_Ringan :: pyfloat
  Rumah_Terendam :: pyfloat
  Fasilitas_Pendidikan :: pyfloat
  Fasilitas_Peribadatan :: pyfloat
  Fasilitas_Kesehatan :: pyfloat
  Tahun :: int
  Total_Dampak_Indikator :: pyfloat

text \<open>Applying a function that may raise to every element: the first exception ends the traversal.\<close>

fun map_err :: "('a \<Rightarrow> error + 'b) \<Rightarrow> 'a list \<Rightarrow> error + 'b list" where
  "map_err f [] = Inr []"
| "map_err f (x # xs) =
     (case f x of
        Inl e \<Rightarrow> Inl e
      | Inr y \<Rightarrow> (case map_err f xs of Inl e \<Rightarrow> Inl e | Inr ys \<Rightarrow> Inr (y # ys)))"

text \<open>
  Lines 63 to 74: the rows whose first cell, as text, contains the marker; when there is
  none, the rows with the marker in any cell.
\<close>

definition has_marker :: "cell \<Rightarrow> bool" where
  "has_marker c \<longleftrightarrow> str_contains (py_str c) section_marker"

definition first_col_match :: "raw_grid \<Rightarrow> nat \<Rightarrow> bool" where
  "first_col_match df_raw i \<longleftrightarrow> has_marker (col 0 (rows df_raw ! i))"

definition any_cell_match :: "raw_grid \<Rightarrow> nat \<Rightarrow> bool" where
  "any_cell_match df_raw i \<longleftrightarrow> list_ex has_marker (rows df_raw ! i)"

definition marker_rows :: "raw_grid \<Rightarrow> nat list" where
  "marker_rows df_raw =
     (let n = length (rows df_raw);
          marker_idx = filter (first_col_match df_raw) [0 ..< n]
      in if marker_idx = [] then filter (any_cell_match df_raw) [0 ..< n] else marker_idx)"

text \<open>No cell of the frame, as text, contains the marker.\<close>

definition marker_absent :: "raw_grid \<Rightarrow> bool" where
  "marker_absent df_raw \<longleftrightarrow> list_all (list_all (\<lambda>c. \<not> has_marker c)) (rows df_raw)"

text \<open>Lines 89 and 92: \<open>dropna\<close> on the code and the name, then the placeholder codes.\<close>

definition select_rows :: "cell list list \<Rightarrow> cell list list" where
  "select_rows df =
     filter (\<lambda>r. \<not> startswith (py_str (col 0 r)) hyphen)
       (filter (\<lambda>r. \<not> is_na (col 0 r) \<and> \<not> is_na (col 1 r)) df)"

text \<open>\<open>int(x)\<close> for a cell.\<close>

definition int_of_cell :: "cell \<Rightarrow> error + int" where
  "int_of_cell x =
     (case x of
        Text s \<Rightarrow> int_of_str s
      | IntCell i \<Rightarrow> Inr i
      | FloatCell f \<Rightarrow> int_of_float f
      | Empty \<Rightarrow> int_of_float NaN)"

text \<open>Lines 95 to 97, the code, and line 98, the name.\<close>

definition clean_code :: "cell \<Rightarrow> error + ustring" where
  "clean_code x =
     (if isdigit (py_strip (py_str x)) then
        (case int_of_cell x of Inl e \<Rightarrow> Inl e | Inr i \<Rightarrow> Inr (str_of_int i))
      else Inr (py_strip (py_str x)))"

definition clean_name :: "cell \<Rightarrow> ustring" where
  "clean_name x = py_title (py_strip (py_str x))"

text \<open>
  Lines 95 to 115 on one row: the code, the name, \<open>_to_number\<close> on each column of
  \<open>NUM_COLS\<close> (the positions 2 to 12), the year and the total. The program works
  column by column; only the code can raise, in the first row that has a bad one.
\<close>

definition normalise_row :: "int \<Rightarrow> cell list \<Rightarrow> error + province_record" where
  "normalise_row year r =
     (case clean_code (col 0 r) of
        Inl e \<Rightarrow> Inl e
      | Inr code \<Rightarrow>
          (case map_err to_number (map (\<lambda>k. col k r) [2 ..< 13]) of
             Inl e \<Rightarrow> Inl e
           | Inr v \<Rightarrow>
               Inr \<lparr> Kode_Provinsi = code,
                     Provinsi = clean_name (col 1 r),
                     Jumlah_Kejadian = v ! 0,
                     Meninggal_Hilang = v ! 1,
                     Luka_Luka = v ! 2,
                     Mengungsi_Terdampak = v ! 3,
                     Rumah_Rusak_Berat = v ! 4,
                     Rumah_Rusak_Sedang = v ! 5,
                     Rumah_Rusak_Ringan = v ! 6,
                     Rumah_Terendam = v ! 7,
                     Fasilitas_Pendidikan = v ! 8,
                     Fasilitas_Peribadatan = v ! 9,
                     Fasilitas_Kesehatan = v ! 10,
                     Tahun = year,
                     Total_Dampak_Indikator =
                       fadd (fadd (fadd (fadd (fadd (fadd (v ! 0) (v ! 1)) (v ! 2)) (v ! 3)) (v ! 4))
                         (v ! 5)) (v ! 6) \<rparr>))"

text \<open>\<open>extract_province_section\<close> (lines 56 to 117).\<close>

definition extract_province_section :: "raw_grid \<Rightarrow> int \<Rightarrow> error + province_record list" where
  "extract_province_section df_raw year =
     (if ncols df_raw = 0 then Inl IndexError
      else case marker_rows df_raw of
             [] \<Rightarrow> Inl StructureError
           | marker_idx # _ \<Rightarrow>
               (let df = drop (marker_idx + 1) (rows df_raw);
                    df = map (take 13) df
                in if min (ncols df_raw) 13 \<noteq> length EXPECTED_COLS then Inl LengthMismatch
                   else map_err (normalise_row year) (select_rows df)))"

text \<open>The frame cut to its first thirteen columns (\<open>df_raw.iloc[:, :13]\<close>).\<close>

definition first_13_columns :: "raw_grid \<Rightarrow> raw_grid" where
  "first_13_columns df_raw =
     \<lparr> ncols = min (ncols df_raw) 13, rows = map (take 13) (rows df_raw) \<rparr>"

section \<open>Merging\<close>

text \<open>\<open>pd.concat(tables, ignore_index=True)\<close> (line 155): the rows of the tables, one table after the other.\<close>

definition pd_concat :: "province_record list list \<Rightarrow> province_record list" where
  "pd_concat tables = concat tables"

section \<open>Example grids\<close>

text \<open>
  The sheet of the end-to-end example: the marker row, one province and one
  placeholder row with the code \<open>-1\<close>.
\<close>

definition aceh_row :: "cell list" where
  "aceh_row =
     map (\<lambda>s. Text (ustr s))
       [''11'', ''Aceh'', ''5'', ''2'', ''-'', ''100'', ''0'', ''0'', ''0'', ''0'', ''0'', ''0'', ''0'']"

definition total_row :: "cell list" where
  "total_row =
     map (\<lambda>s. Text (ustr s))
       [''-1'', ''Total'', ''5'', ''2'', ''-'', ''100'', ''0'', ''0'', ''0'', ''0'', ''0'', ''0'', ''0'']"

definition marker_row :: "cell list" where
  "marker_row = Text section_marker # replicate 12 Empty"

definition example_grid :: raw_grid where
  "example_grid = \<lparr> ncols = 13, rows = [marker_row, aceh_row, total_row] \<rparr>"

definition aceh_2023 :: province_record where
  "aceh_2023 =
     \<lparr> Kode_Provinsi = ustr ''11'', Provinsi = ustr ''Aceh'', Jumlah_Kejadian = Fin 5,
       Meninggal_Hilang = Fin 2, Luka_Luka = Fin 0, Mengungsi_Terdampak = Fin 100,
       Rumah_Rusak_Berat = Fin 0, Rumah_Rusak_Sedang = Fin 0, Rumah_Rusak_Ringan = Fin 0,
       Rumah_Terendam = Fin 0, Fasilitas_Pendidikan = Fin 0, Fasilitas_Peribadatan = Fin 0,
       Fasilitas_Kesehatan = Fin 0, Tahun = 2023, Total_Dampak_Indikator = Fin 107 \<rparr>"







text \<open>A row whose code is the superscript two, a digit that \<open>int\<close> does not read.\<close>

definition superscript_code_row :: "cell list" where
  "superscript_code_row = [Text [178], Text (ustr ''Aceh'')] @ replicate 11 Empty"

text \<open>Frames without the marker, with one column and with none, and a one-column frame with it.\<close>

definition no_marker_grid :: raw_grid where
  "no_marker_grid = \<lparr> ncols = 1, rows = [[Text (ustr ''Rekap'')], [Empty]] \<rparr>"

definition empty_grid :: raw_grid where
  "empty_grid = \<lparr> ncols = 0, rows = [] \<rparr>"

definition narrow_grid :: raw_grid where
  "narrow_grid = \<lparr> ncols = 1, rows = [[Text section_marker], [Text (ustr ''11'')]] \<rparr>"

text \<open>The example sheet with a fourteenth column.\<close>

definition wide_grid :: raw_grid where
  "wide_grid =
     \<lparr> ncols = 14,
       rows = [marker_row @ [Text (ustr ''x'')], aceh_row @ [IntCell 7], total_row @ [Empty]] \<rparr>"

text \<open>A sheet with the marker in its second column only, in the second row.\<close>

definition offset_marker_row :: "cell list" where
  "offset_marker_row = Empty # Text section_marker # replicate 11 Empty"

definition offset_grid :: raw_grid where
  "offset_grid = \<lparr> ncols = 13, rows = [replicate 13 Empty, offset_marker_row, aceh_row] \<rparr>"

definition bali_2024 :: province_record where
  "bali_2024 =
     \<lparr> Kode_Provinsi = ustr ''51'', Provinsi = ustr ''Bali'', Jumlah_Kejadian = Fin 3,
       Meninggal_Hilang = Fin 0, Luka_Luka = Fin 1, Mengungsi_Terdampak = Fin 20,
       Rumah_Rusak_Berat = Fin 0, Rumah_Rusak_Sedang = Fin 0, Rumah_Rusak_Ringan = Fin 0,
       Rumah_Terendam = Fin 0, Fasilitas_Pendidikan = Fin 0, Fasilitas_Peribadatan = Fin 0,
       Fasilitas_Kesehatan = Fin 0, Tahun = 2024, Total_Dampak_Indikator = Fin 24 \<rparr>"

section \<open>Auxiliary facts\<close>

subsection \<open>Rounding to a double\<close>

lemma round_half_even_of_int: "round_half_even (of_int z) = z"
  by (simp add: round_half_even_def)


lemma ilog2_of_int:
  assumes "0 < n"
  shows "ilog2 (of_int n) = bitlen n - 1"
proof -
  have b: "1 \<le> bitlen n" using assms by (simp add: bitlen_alt_def)
  have "(2::int) ^ nat (bitlen n - 1) \<le> n" using bitlen_bounds [OF assms] by simp
  then have "(of_int (2 ^ nat (bitlen n - 1)) :: rat) \<le> of_int n"
    by (simp only: of_int_le_iff)
  then have "pow2 (bitlen n - 1) \<le> of_int n"
    using b by (simp add: pow2_def)
  moreover have "bitlen (1::int) = 1" by (simp add: bitlen_alt_def)
  ultimately show ?thesis
    by (simp add: ilog2_def quotient_of_int [unfolded Rat.of_int_def])
qed

lemma bitlen_le_53:
  assumes "0 < n" and "n < 2 ^ 53"
  shows "bitlen n \<le> 53"
proof -
  have "(2::int) ^ nat (bitlen n - 1) \<le> n" using bitlen_bounds [OF assms(1)] by simp
  with assms(2) have lt: "(2::int) ^ nat (bitlen n - 1) < 2 ^ 53" by linarith
  have "(1::int) < 2" by simp
  from power_less_imp_less_exp [OF this lt] have "nat (bitlen n - 1) < 53" .
  then show ?thesis by linarith
qed

lemma round_double_pos_int:
  assumes "0 < n" and "n < 2 ^ 53"
  shows "round_double (of_int n) = Fin (of_int n)"
proof -
  define e where "e = max (bitlen n - 1 - 52) (- 1074)"
  have b: "1 \<le> bitlen n" using assms(1) by (simp add: bitlen_alt_def)
  have e0: "e \<le> 0" using bitlen_le_53 [OF assms] by (simp add: e_def)
  have pe: "pow2 e = 1 / 2 ^ nat (- e)"
    using e0 by (cases "e = 0") (simp_all add: pow2_def)
  have q: "(of_int n :: rat) / pow2 e = of_int (n * 2 ^ nat (- e))"
    by (simp add: pe)
  have m: "round_half_even (of_int n / pow2 e) = n * 2 ^ nat (- e)"
    unfolding q by (rule round_half_even_of_int)
  have v: "(of_int (n * 2 ^ nat (- e)) :: rat) * pow2 e = of_int n"
    by (simp add: pe)
  have "(of_int n :: rat) < of_int (2 ^ 53)" using assms(2) by (simp only: of_int_less_iff)
  also have "(of_int (2 ^ 53) :: rat) \<le> pow2 1024" by (simp add: pow2_def)
  finally have small: "\<not> pow2 1024 \<le> (of_int n :: rat)" by simp
  have nz: "(of_int n :: rat) \<noteq> 0" "(0::rat) < of_int n" using assms(1) by simp_all
  have a: "\<bar>of_int n :: rat\<bar> = of_int n" using assms(1) by simp
  show ?thesis
    unfolding round_double_def Let_def a ilog2_of_int [OF assms(1)] e_def [symmetric] m v
    using nz small by simp
qed

lemma round_double_uminus:
  assumes "x \<noteq> 0"
  shows "round_double (- x) = fneg (round_double x)"
proof -
  from assms consider "0 < x" | "x < 0" by linarith
  then show ?thesis
    by cases (simp_all add: round_double_def Let_def fneg_def)
qed

lemma round_double_int:
  assumes "\<bar>i\<bar> < 2 ^ 53"
  shows "round_double (of_int i) = Fin (of_int i)"
proof -
  consider "i = 0" | "0 < i" | "i < 0" by linarith
  then show ?thesis
  proof cases
    case 1
    then show ?thesis by (simp add: round_double_def)
  next
    case 2
    with assms show ?thesis by (simp add: round_double_pos_int)
  next
    case 3
    with assms have "round_double (of_int (- i)) = Fin (of_int (- i))"
      by (intro round_double_pos_int) simp_all
    moreover have "(of_int (- i) :: rat) \<noteq> 0" using 3 by simp
    ultimately show ?thesis
      using round_double_uminus [of "of_int (- i)"] 3 by (simp add: fneg_def)
  qed
qed

lemma round_double_numeral:
  "(numeral k :: int) < 2 ^ 53 \<Longrightarrow> round_double (numeral k) = Fin (numeral k)"
  using round_double_int [of "numeral k"] by simp


lemma round_double_0: "round_double 0 = Fin 0"
  by (simp add: round_double_def)

lemma round_double_1: "round_double 1 = Fin 1"
  using round_double_int [of 1] by simp



lemma float_of_int_overflow: "float_of_int (2 ^ 1024) = Inl OverflowError"
proof -
  define n :: int where "n = 2 ^ 1024"
  have npos: "0 < n" by (simp add: n_def)
  have "bitlen n = 1025" unfolding n_def using bitlen_pow2 [of 1 1024] by (simp add: bitlen_alt_def)
  then have i: "ilog2 (of_int n) = 1024" using ilog2_of_int [OF npos] by simp
  have a: "\<bar>of_int n :: rat\<bar> = of_int n" using npos by simp
  have e: "max (1024 - 52) (- 1074) = (972::int)" by simp
  have q: "(of_int n :: rat) / pow2 972 = of_int (2 ^ 52)" by (simp add: n_def pow2_def)
  have m: "round_half_even (of_int n / pow2 972) = 2 ^ 52"
    unfolding q by (rule round_half_even_of_int)
  have v: "of_int (2 ^ 52) * pow2 972 = (of_int n :: rat)" by (simp add: n_def pow2_def)
  have big: "pow2 1024 \<le> (of_int n :: rat)" by (simp add: n_def pow2_def)
  have nz: "(of_int n :: rat) \<noteq> 0" "(0::rat) < of_int n" using npos by simp_all
  have "round_double (of_int n) = PInf"
    unfolding round_double_def Let_def a i e m v using nz big by simp
  then show ?thesis by (simp add: float_of_int_def n_def)
qed

subsection \<open>Text\<close>

lemma strip_no_space:
  assumes "\<forall>c\<in>set s. \<not> P c"
  shows "rev (dropWhile P (rev (dropWhile P s))) = s"
proof -
  have a: "dropWhile P s = s" using assms by (cases s) simp_all
  have "dropWhile P (rev s) = rev s" using assms by (cases "rev s") (simp, metis dropWhile.simps(2) list.set_intros(1) set_rev)
  with a show ?thesis by simp
qed

lemma ascii_digit_not_space: "ascii_digit c \<Longrightarrow> \<not> is_space c \<and> \<not> ascii_space c"
  by (auto simp add: ascii_digit_def is_space_def ascii_space_def)

lemma to_ascii_digit: "ascii_digit c \<Longrightarrow> to_ascii c = c"
  by (simp add: ascii_digit_def to_ascii_def)

lemma to_lower_digit: "ascii_digit c \<Longrightarrow> to_lower c = c"
  by (simp add: ascii_digit_def to_lower_def)

lemma underscores_ok_none: "95 \<notin> set s \<Longrightarrow> prev \<noteq> 95 \<Longrightarrow> underscores_ok prev s"
  by (induction s arbitrary: prev) auto

lemma number_text_digits:
  assumes "list_all ascii_digit ds"
  shows "number_text ds = ds"
proof -
  have "map to_ascii ds = ds"
    using assms by (induction ds) (simp_all add: to_ascii_digit)
  moreover have "\<forall>c\<in>set ds. \<not> ascii_space c"
    using assms by (auto simp add: list_all_iff ascii_digit_not_space)
  ultimately show ?thesis
    using strip_no_space [of ds ascii_space] by (simp add: number_text_def)
qed

lemma ascii_digit_is_digit: "ascii_digit c \<Longrightarrow> is_digit_char c"
  by (simp add: ascii_digit_def is_digit_char_def decimal_value_def nd_zeros_def)

lemma py_strip_digits: "list_all ascii_digit ds \<Longrightarrow> py_strip ds = ds"
  unfolding py_strip_def
  by (rule strip_no_space) (auto simp add: list_all_iff ascii_digit_not_space)



















lemma str_contains_length: "str_contains s p \<Longrightarrow> length p \<le> length s"
proof (induction s)
  case Nil
  then show ?case by simp
next
  case (Cons c cs)
  show ?case
  proof (cases "startswith (c # cs) p")
    case True
    then have "take (length p) (c # cs) = p" by (simp only: startswith_def)
    then have "length p = length (take (length p) (c # cs))" by (simp only:)
    then show ?thesis by (simp add: min_def split: if_splits)
  next
    case False
    with Cons show ?thesis by simp
  qed
qed

lemma marker_length: "length section_marker = 21"
  by (simp add: section_marker_def ustr_def)

subsection \<open>Reading numbers\<close>

lemma parse_decimal_digits:
  assumes "list_all ascii_digit ds" and "ds \<noteq> []"
  shows "parse_decimal ds = Some (of_nat (dec_value ds))"
proof -
  have t: "takeWhile ascii_digit ds = ds" and d: "dropWhile ascii_digit ds = []"
    using assms(1) by (simp_all add: list_all_iff)
  show ?thesis
    using assms(2) by (simp add: parse_decimal_def Let_def t d parse_exponent_def pow10_def)
qed

lemma digits_not_word:
  assumes "list_all ascii_digit ds" and "ds \<noteq> []"
  shows "map to_lower ds \<noteq> ustr w \<or> (\<exists>c\<in>set w. 48 \<le> (of_char c :: nat) \<and> (of_char c :: nat) \<le> 57)"
proof (cases "map to_lower ds = ustr w")
  case False
  then show ?thesis by simp
next
  case True
  obtain d where d: "d \<in> set ds" using assms(2) by (cases ds) auto
  then have ad: "ascii_digit d" using assms(1) by (simp add: list_all_iff)
  have "to_lower d \<in> set (map to_lower ds)" using d by simp
  then have "d \<in> set (ustr w)" using True ad by (simp add: to_lower_digit)
  then show ?thesis using ad by (auto simp add: ustr_def ascii_digit_def)
qed

lemma float_of_str_digits:
  assumes "list_all ascii_digit ds" and "ds \<noteq> []"
  shows "float_of_str ds = Inr (round_double (of_nat (dec_value ds)))"
proof -
  have no95: "95 \<notin> set ds"
    using assms(1) by (auto simp add: list_all_iff ascii_digit_def)
  then have f: "filter (\<lambda>c. c \<noteq> 95) ds = ds" by (auto simp add: filter_id_conv)
  obtain d rest where ds: "ds = d # rest" using assms(2) by (cases ds) auto
  then have "ascii_digit d" using assms(1) by simp
  then have sg: "split_sign ds = (False, ds)"
    by (simp add: split_sign_def ds ascii_digit_def)
  have w1: "map to_lower ds \<noteq> ustr ''inf''"
    using digits_not_word [OF assms, of "''inf''"] by simp
  have w2: "map to_lower ds \<noteq> ustr ''infinity''"
    using digits_not_word [OF assms, of "''infinity''"] by simp
  have w3: "map to_lower ds \<noteq> ustr ''nan''"
    using digits_not_word [OF assms, of "''nan''"] by simp
  show ?thesis
    by (simp add: float_of_str_def Let_def number_text_digits [OF assms(1)]
        underscores_ok_none [OF no95] f sg w1 w2 w3 parse_decimal_digits [OF assms])
qed


lemma float_of_str_error: "float_of_str s = Inl e \<Longrightarrow> e = ValueError"
  by (auto simp add: float_of_str_def Let_def split: if_splits prod.splits option.splits)

lemma int_of_str_digits:
  assumes "list_all ascii_digit ds" and "ds \<noteq> []" and "length ds \<le> int_max_str_digits"
  shows "int_of_str ds = Inr (int (dec_value ds))"
proof -
  have no95: "95 \<notin> set ds"
    using assms(1) by (auto simp add: list_all_iff ascii_digit_def)
  then have f: "filter (\<lambda>c. c \<noteq> 95) ds = ds" by (auto simp add: filter_id_conv)
  obtain d rest where ds: "ds = d # rest" using assms(2) by (cases ds) auto
  then have "ascii_digit d" using assms(1) by simp
  then have sg: "split_sign ds = (False, ds)"
    by (simp add: split_sign_def ds ascii_digit_def)
  show ?thesis
    using assms by (simp add: int_of_str_def number_text_digits sg f underscores_ok_none [OF no95])
qed



subsection \<open>The numeric coercion\<close>

lemma to_number_returns: "\<exists>v. to_number x = Inr v"
proof (cases x)
  case (Text t)
  show ?thesis
  proof (cases "float_of_str (remove_commas (py_strip t))")
    case (Inl e)
    then have "e = ValueError" by (rule float_of_str_error)
    with Inl Text show ?thesis by (simp add: to_number_def is_na_def Let_def)
  next
    case (Inr v)
    with Text show ?thesis by (simp add: to_number_def is_na_def Let_def)
  qed
next
  case (IntCell i)
  then show ?thesis by (simp add: to_number_def is_na_def split: sum.splits)
qed (simp_all add: to_number_def is_na_def)

lemma to_number_na: "is_na x \<Longrightarrow> to_number x = Inr (Fin 0)"
  by (simp add: to_number_def)

lemma to_number_placeholder:
  "py_strip t \<in> {hyphen, em_dash, en_dash, []} \<Longrightarrow> to_number (Text t) = Inr (Fin 0)"
  by (auto simp add: to_number_def is_na_def Let_def)

lemma to_number_unparseable:
  "float_of_str (remove_commas (py_strip t)) = Inl e \<Longrightarrow> to_number (Text t) = Inr (Fin 0)"
  by (frule float_of_str_error) (simp add: to_number_def is_na_def Let_def)

lemma to_number_parsed:
  assumes "py_strip t \<notin> {hyphen, em_dash, en_dash, []}"
    and "float_of_str (remove_commas (py_strip t)) = Inr v"
  shows "to_number (Text t) = Inr v"
  using assms by (simp add: to_number_def is_na_def Let_def)

lemma to_number_comma_digits:
  assumes "list_all (\<lambda>c. ascii_digit c \<or> c = 44) s" and "list_ex ascii_digit s"
  shows "to_number (Text s) = Inr (round_double (of_nat (dec_value (remove_commas s))))"
proof -
  have "\<forall>c\<in>set s. \<not> is_space c"
    using assms(1) by (auto simp add: list_all_iff is_space_def ascii_digit_def)
  then have st: "py_strip s = s" unfolding py_strip_def by (rule strip_no_space)
  obtain d where d: "d \<in> set s" "ascii_digit d"
    using assms(2) by (auto simp add: list_ex_iff)
  then have ne: "s \<notin> {hyphen, em_dash, en_dash, []}"
    by (auto simp add: hyphen_def em_dash_def en_dash_def ascii_digit_def)
  have ds: "list_all ascii_digit (remove_commas s)"
    using assms(1) by (auto simp add: remove_commas_def list_all_iff)
  have "d \<in> set (remove_commas s)" using d by (auto simp add: remove_commas_def ascii_digit_def)
  then have "remove_commas s \<noteq> []" by auto
  from float_of_str_digits [OF ds this] show ?thesis
    using ne by (intro to_number_parsed) (simp_all add: st)
qed


subsection \<open>Rows\<close>

lemma map_err_length: "map_err f xs = Inr ys \<Longrightarrow> length ys = length xs"
  by (induction xs arbitrary: ys) (auto split: sum.splits)

lemma map_err_nth: "map_err f xs = Inr ys \<Longrightarrow> k < length xs \<Longrightarrow> f (xs ! k) = Inr (ys ! k)"
proof (induction xs arbitrary: ys k)
  case Nil
  then show ?case by simp
next
  case (Cons x xs)
  then show ?case by (cases k) (auto split: sum.splits)
qed

lemma map_err_set: "map_err f xs = Inr ys \<Longrightarrow> y \<in> set ys \<Longrightarrow> \<exists>x\<in>set xs. f x = Inr y"
  by (induction xs arbitrary: ys) (auto split: sum.splits)

lemma map_err_fails: "map_err f xs = Inl e \<Longrightarrow> \<exists>x\<in>set xs. f x = Inl e"
  by (induction xs) (auto split: sum.splits)

lemma map_err_returns: "(\<And>x. x \<in> set xs \<Longrightarrow> \<exists>y. f x = Inr y) \<Longrightarrow> \<exists>ys. map_err f xs = Inr ys"
proof (induction xs)
  case Nil
  then show ?case by simp
next
  case (Cons x xs)
  then obtain y ys where "f x = Inr y" "map_err f xs = Inr ys" by (meson list.set_intros)
  then show ?case by simp
qed

lemma num_cols: "[2 ..< 13] = [2, 3, 4, 5, 6, 7, 8, 9, 10, 11, 12 :: nat]"
  by (simp add: upt_rec)

lemma numeric_columns_return: "\<exists>v. map_err to_number (map (\<lambda>k. col k r) [2 ..< 13]) = Inr v"
  by (rule map_err_returns) (rule to_number_returns)

lemma normalise_row_fails:
  "normalise_row year r = Inl e \<Longrightarrow> clean_code (col 0 r) = Inl e"
  using numeric_columns_return [of r]
  by (auto simp add: normalise_row_def split: sum.splits)

lemma normalise_row_fields:
  assumes "normalise_row year r = Inr p"
  shows "clean_code (col 0 r) = Inr (Kode_Provinsi p) \<and> Provinsi p = clean_name (col 1 r) \<and>
         Tahun p = year \<and>
         map (\<lambda>k. to_number (col k r)) [2 ..< 13] =
           map Inr [Jumlah_Kejadian p, Meninggal_Hilang p, Luka_Luka p, Mengungsi_Terdampak p,
             Rumah_Rusak_Berat p, Rumah_Rusak_Sedang p, Rumah_Rusak_Ringan p, Rumah_Terendam p,
             Fasilitas_Pendidikan p, Fasilitas_Peribadatan p, Fasilitas_Kesehatan p] \<and>
         Total_Dampak_Indikator p =
           fadd (fadd (fadd (fadd (fadd (fadd (Jumlah_Kejadian p) (Meninggal_Hilang p)) (Luka_Luka p))
             (Mengungsi_Terdampak p)) (Rumah_Rusak_Berat p)) (Rumah_Rusak_Sedang p))
             (Rumah_Rusak_Ringan p)"
proof -
  obtain code v where code: "clean_code (col 0 r) = Inr code"
    and v: "map_err to_number (map (\<lambda>k. col k r) [2 ..< 13]) = Inr v"
    using assms by (auto simp add: normalise_row_def split: sum.splits)
  have n: "to_number (col k r) = Inr (v ! (k - 2))" if "2 \<le> k" and "k < 13" for k
  proof -
    have "[2 ..< 13] ! (k - 2) = k"
      using nth_upt [of 2 "k - 2" 13] that by linarith
    moreover have "k - 2 < length [2 ..< (13::nat)]"
      using that by (simp del: upt_rec_numeral)
    ultimately have "map (\<lambda>k. col k r) [2 ..< 13] ! (k - 2) = col k r"
      by (simp only: nth_map)
    moreover have "k - 2 < length (map (\<lambda>k. col k r) [2 ..< 13])"
      using that by (simp del: upt_rec_numeral)
    ultimately show ?thesis using map_err_nth [OF v, of "k - 2"] by simp
  qed
  have p: "p = \<lparr> Kode_Provinsi = code, Provinsi = clean_name (col 1 r),
      Jumlah_Kejadian = v ! 0, Meninggal_Hilang = v ! 1, Luka_Luka = v ! 2,
      Mengungsi_Terdampak = v ! 3, Rumah_Rusak_Berat = v ! 4, Rumah_Rusak_Sedang = v ! 5,
      Rumah_Rusak_Ringan = v ! 6, Rumah_Terendam = v ! 7, Fasilitas_Pendidikan = v ! 8,
      Fasilitas_Peribadatan = v ! 9, Fasilitas_Kesehatan = v ! 10, Tahun = year,
      Total_Dampak_Indikator =
        fadd (fadd (fadd (fadd (fadd (fadd (v ! 0) (v ! 1)) (v ! 2)) (v ! 3)) (v ! 4)) (v ! 5)) (v ! 6) \<rparr>"
    using assms unfolding normalise_row_def code v by simp
  show ?thesis
    using n [of 2] n [of 3] n [of 4] n [of 5] n [of 6] n [of 7] n [of 8] n [of 9] n [of 10]
      n [of 11] n [of 12]
    by (simp add: p code num_cols)
qed

lemma col_take: "k < n \<Longrightarrow> col k (take n r) = col k r"
  by (simp add: col_def)

lemma clean_code_digits:
  assumes "list_all ascii_digit ds" and "ds \<noteq> []" and "length ds \<le> int_max_str_digits"
  shows "clean_code (Text ds) = Inr (digits_of_nat (dec_value ds))"
proof -
  have "isdigit ds"
    using assms(1,2) by (auto simp add: isdigit_def list_all_iff ascii_digit_is_digit)
  then show ?thesis
    by (simp add: clean_code_def py_str_def py_strip_digits [OF assms(1)] int_of_cell_def
        int_of_str_digits [OF assms] str_of_int_def)
qed





subsection \<open>The marker search\<close>

lemma filter_upt_first:
  assumes "filter P [0 ..< n] = i # rest"
  shows "i < n \<and> P i \<and> (\<forall>j<i. \<not> P j)"
proof -
  have "i \<in> set (filter P [0 ..< n])" by (simp add: assms)
  then have a: "i < n" "P i" by simp_all
  have "sorted (filter P [0 ..< n])"
    using sorted_wrt_filter [of "(\<le>)" "[0 ..< n]" P] by simp
  then have s: "\<forall>x\<in>set rest. i \<le> x" by (simp add: assms)
  have d: "distinct (filter P [0 ..< n])" by simp
  have "\<not> P j" if "j < i" for j
  proof
    assume "P j"
    with that a have "j \<in> set (filter P [0 ..< n])" by simp
    then have "j = i \<or> j \<in> set rest" by (simp add: assms)
    with s that show False by auto
  qed
  with a show ?thesis by simp
qed

lemma filter_upt_cong:
  "(\<And>j. j < n \<Longrightarrow> P j = Q j) \<Longrightarrow> filter P [0 ..< n] = filter Q [0 ..< n]"
  by (rule filter_cong) simp_all

lemma filter_upt_nonempty: "j < n \<Longrightarrow> P j \<Longrightarrow> filter P [0 ..< n] \<noteq> []"
  by (auto simp add: filter_empty_conv)

lemma col_0_cases: "col 0 r \<in> set r \<or> col 0 r = Empty"
  by (cases r) (simp_all add: col_def)

lemma marker_has_marker: "has_marker (Text section_marker)"
  unfolding has_marker_def py_str_def section_marker_def ustr_def by (simp add: startswith_def)

lemma empty_no_marker: "\<not> has_marker Empty"
  unfolding has_marker_def py_str_def section_marker_def ustr_def by (simp add: startswith_def)

lemma short_text_no_marker: "length s < 21 \<Longrightarrow> \<not> has_marker (Text s)"
  using str_contains_length [of s section_marker]
  by (auto simp add: has_marker_def py_str_def marker_length)

lemma marker_absent_rows:
  assumes "marker_absent g"
  shows "marker_rows g = []"
proof -
  have cells: "\<not> has_marker c" if "j < length (rows g)" and "c \<in> set (rows g ! j)" for j c
    using assms that by (auto simp add: marker_absent_def list_all_iff)
  have "\<not> first_col_match g j" if "j < length (rows g)" for j
    using col_0_cases [of "rows g ! j"] cells [OF that] empty_no_marker
    by (auto simp add: first_col_match_def)
  then have a: "filter (first_col_match g) [0 ..< length (rows g)] = []"
    by (simp add: filter_empty_conv)
  have "\<not> any_cell_match g j" if "j < length (rows g)" for j
    using cells [OF that] by (simp add: any_cell_match_def list_ex_iff)
  then have "filter (any_cell_match g) [0 ..< length (rows g)] = []"
    by (simp add: filter_empty_conv)
  with a show ?thesis by (simp add: marker_rows_def)
qed

lemma marker_present_rows:
  assumes "\<not> marker_absent g"
  shows "marker_rows g \<noteq> []"
proof -
  from assms obtain r c where r: "r \<in> set (rows g)" and c: "c \<in> set r" "has_marker c"
    by (auto simp add: marker_absent_def list_all_iff)
  from r obtain j where j: "j < length (rows g)" "rows g ! j = r"
    by (auto simp add: in_set_conv_nth)
  with c have "any_cell_match g j" by (auto simp add: any_cell_match_def list_ex_iff)
  with j have "filter (any_cell_match g) [0 ..< length (rows g)] \<noteq> []"
    by (intro filter_upt_nonempty)
  then show ?thesis by (simp add: marker_rows_def Let_def)
qed

lemma marker_rows_first_col:
  assumes "marker_rows g = i # rest" and "j < length (rows g)" and "first_col_match g j"
  shows "filter (first_col_match g) [0 ..< length (rows g)] = i # rest"
proof -
  have "filter (first_col_match g) [0 ..< length (rows g)] \<noteq> []"
    using assms(2,3) by (rule filter_upt_nonempty)
  with assms(1) show ?thesis by (simp add: marker_rows_def Let_def)
qed

lemma marker_rows_fallback:
  assumes "marker_rows g = i # rest" and "\<forall>j<length (rows g). \<not> first_col_match g j"
  shows "filter (any_cell_match g) [0 ..< length (rows g)] = i # rest"
proof -
  have "filter (first_col_match g) [0 ..< length (rows g)] = []"
    using assms(2) by (simp add: filter_empty_conv)
  with assms(1) show ?thesis by (simp add: marker_rows_def Let_def)
qed

lemma first_13_marker_rows:
  assumes "j < length (rows g)" and "first_col_match g j"
  shows "marker_rows (first_13_columns g) = marker_rows g"
proof -
  let ?n = "length (rows g)"
  have eq: "first_col_match (first_13_columns g) k = first_col_match g k" if "k < ?n" for k
    using that by (simp add: first_col_match_def first_13_columns_def col_take)
  have f: "filter (first_col_match (first_13_columns g)) [0 ..< ?n] = filter (first_col_match g) [0 ..< ?n]"
    by (rule filter_upt_cong) (rule eq)
  have ne: "filter (first_col_match g) [0 ..< ?n] \<noteq> []"
    using assms by (rule filter_upt_nonempty)
  have l: "length (rows (first_13_columns g)) = ?n" by (simp add: first_13_columns_def)
  show ?thesis
    unfolding marker_rows_def Let_def l f using ne by simp
qed

subsection \<open>The extraction\<close>

lemma extract_rows:
  assumes "marker_rows g = i # rest" and "13 \<le> ncols g"
  shows "extract_province_section g year =
           map_err (normalise_row year) (select_rows (map (take 13) (drop (Suc i) (rows g))))"
  using assms by (simp add: extract_province_section_def EXPECTED_COLS_def Let_def)

lemma extract_returns_cases:
  assumes "extract_province_section g year = Inr recs"
  obtains i rest where "marker_rows g = i # rest" and "13 \<le> ncols g"
    and "map_err (normalise_row year) (select_rows (map (take 13) (drop (Suc i) (rows g)))) = Inr recs"
  using assms
  by (auto simp add: extract_province_section_def EXPECTED_COLS_def Let_def
      split: if_splits list.splits)

lemma extract_record_row:
  assumes "extract_province_section g year = Inr recs" and "p \<in> set recs"
  shows "\<exists>i rest r. marker_rows g = i # rest \<and> r \<in> set (drop (Suc i) (rows g)) \<and>
           \<not> is_na (col 0 r) \<and> \<not> is_na (col 1 r) \<and> \<not> startswith (py_str (col 0 r)) hyphen \<and>
           normalise_row year (take 13 r) = Inr p"
proof -
  from assms(1) obtain i rest where m: "marker_rows g = i # rest"
    and ok: "map_err (normalise_row year) (select_rows (map (take 13) (drop (Suc i) (rows g)))) = Inr recs"
    by (rule extract_returns_cases)
  from map_err_set [OF ok assms(2)] obtain r' where
    r': "r' \<in> set (select_rows (map (take 13) (drop (Suc i) (rows g))))"
    and n: "normalise_row year r' = Inr p" by auto
  from r' obtain r where "r \<in> set (drop (Suc i) (rows g))" and "r' = take 13 r"
    and "\<not> is_na (col 0 r')" "\<not> is_na (col 1 r')" "\<not> startswith (py_str (col 0 r')) hyphen"
    by (auto simp add: select_rows_def)
  with m n show ?thesis by (auto simp add: col_take)
qed


lemma extract_no_marker:
  assumes "marker_rows g = []"
  shows "extract_province_section g year = (if ncols g = 0 then Inl IndexError else Inl StructureError)"
  using assms by (simp add: extract_province_section_def)

lemma extract_narrow:
  assumes "marker_rows g \<noteq> []" and "0 < ncols g" and "ncols g < 13"
  shows "extract_province_section g year = Inl LengthMismatch"
  using assms
  by (cases "marker_rows g") (simp_all add: extract_province_section_def EXPECTED_COLS_def Let_def)

lemma extract_depends_on_13:
  assumes "13 \<le> ncols g" and "13 \<le> ncols g'" and "marker_rows g = marker_rows g'"
    and "map (take 13) (rows g) = map (take 13) (rows g')"
  shows "extract_province_section g year = extract_province_section g' year"
proof (cases "marker_rows g")
  case Nil
  with assms show ?thesis by (simp add: extract_no_marker)
next
  case (Cons i rest)
  have "map (take 13) (drop (Suc i) (rows g)) = map (take 13) (drop (Suc i) (rows g'))"
    using assms(4) by (simp add: drop_map [symmetric])
  with Cons assms show ?thesis by (simp add: extract_rows)
qed






subsection \<open>The example grids, evaluated\<close>

lemma clean_code_11: "clean_code (Text (ustr ''11'')) = Inr (ustr ''11'')"
  using clean_code_digits [of "ustr ''11''"]
  by (simp add: ustr_def ascii_digit_def int_max_str_digits_def dec_value_def digits_of_nat.simps)

lemmas title_eval =
  py_title_def is_cased_def is_case_ignorable_def in_ranges_def cased_ranges_def
  case_ignorable_ranges_def to_title_full_def to_lower_full_def lower_at_def final_sigma_def
  full_mapping_def shifted_def title_special_def title_runs_def lower_special_def
  lower_runs_def

lemma clean_name_aceh: "clean_name (Text (ustr ''Aceh'')) = ustr ''Aceh''"
  by (simp add: clean_name_def py_str_def py_strip_def ustr_def is_space_def title_eval)

lemma to_number_5: "to_number (Text (ustr ''5'')) = Inr (Fin 5)"
  using to_number_comma_digits [of "ustr ''5''"]
  by (simp add: ustr_def ascii_digit_def remove_commas_def dec_value_def round_double_numeral)

lemma to_number_2: "to_number (Text (ustr ''2'')) = Inr (Fin 2)"
  using to_number_comma_digits [of "ustr ''2''"]
  by (simp add: ustr_def ascii_digit_def remove_commas_def dec_value_def round_double_numeral)

lemma to_number_100: "to_number (Text (ustr ''100'')) = Inr (Fin 100)"
  using to_number_comma_digits [of "ustr ''100''"]
  by (simp add: ustr_def ascii_digit_def remove_commas_def dec_value_def round_double_numeral)

lemma to_number_0: "to_number (Text (ustr ''0'')) = Inr (Fin 0)"
  using to_number_comma_digits [of "ustr ''0''"]
  by (simp add: ustr_def ascii_digit_def remove_commas_def dec_value_def round_double_0)

lemma to_number_hyphen: "to_number (Text (ustr ''-'')) = Inr (Fin 0)"
  by (rule to_number_placeholder) (simp add: ustr_def py_strip_def is_space_def hyphen_def)


lemma aceh_row_record: "normalise_row 2023 aceh_row = Inr aceh_2023"
  by (simp add: normalise_row_def aceh_row_def col_def num_cols clean_code_11 clean_name_aceh
      to_number_5 to_number_2 to_number_100 to_number_0 to_number_hyphen aceh_2023_def
      round_double_numeral)

lemma text_no_marker_ascii:
  "\<not> has_marker (Text (ustr ''11''))" "\<not> has_marker (Text (ustr ''-1''))"
  unfolding has_marker_def py_str_def section_marker_def ustr_def by (simp_all add: startswith_def)

lemma example_marker_rows: "marker_rows example_grid = [0]"
proof -
  have "[0 ..< length (rows example_grid)] = [0, 1, 2]"
    by (simp add: example_grid_def upt_rec)
  then show ?thesis
    by (simp add: marker_rows_def first_col_match_def example_grid_def marker_row_def col_def
        marker_has_marker aceh_row_def total_row_def text_no_marker_ascii)
qed

lemma example_select:
  "select_rows (map (take 13) (drop (Suc 0) (rows example_grid))) = [aceh_row]"
  by (simp add: select_rows_def example_grid_def aceh_row_def total_row_def col_def is_na_def
      py_str_def ustr_def startswith_def hyphen_def)

lemma example_extract: "extract_province_section example_grid 2023 = Inr [aceh_2023]"
proof -
  have "13 \<le> ncols example_grid" by (simp add: example_grid_def)
  from extract_rows [OF example_marker_rows this, of 2023] show ?thesis
    by (simp add: example_select aceh_row_record)
qed

lemma float_of_str_abc: "float_of_str (ustr ''abc'') = Inl ValueError"
  by (simp add: float_of_str_def number_text_def ustr_def to_ascii_def ascii_space_def
      split_sign_def to_lower_def parse_decimal_def ascii_digit_def)

lemma to_number_abc_arg: "remove_commas (py_strip (ustr ''abc'')) = ustr ''abc''"
  by (simp add: remove_commas_def py_strip_def ustr_def is_space_def)

lemma clean_code_superscript: "clean_code (Text [178]) = Inl ValueError"
  by (simp add: clean_code_def py_str_def py_strip_def is_space_def isdigit_def is_digit_char_def
      decimal_value_def nd_zeros_def other_digit_ranges_def int_of_cell_def int_of_str_def
      number_text_def to_ascii_def ascii_space_def split_sign_def ascii_digit_def)

lemma rekap_no_marker: "\<not> has_marker (Text (ustr ''Rekap''))"
  by (rule short_text_no_marker) (simp add: ustr_def)

lemma no_marker_grid_absent: "marker_absent no_marker_grid"
  by (simp add: marker_absent_def no_marker_grid_def rekap_no_marker empty_no_marker)

lemma empty_grid_absent: "marker_absent empty_grid"
  by (simp add: marker_absent_def empty_grid_def)

lemma narrow_grid_present: "\<not> marker_absent narrow_grid"
  by (simp add: marker_absent_def narrow_grid_def marker_has_marker)

lemma example_grid_present: "\<not> marker_absent example_grid"
  by (simp add: marker_absent_def example_grid_def marker_row_def marker_has_marker)

lemma offset_grid_present: "\<not> marker_absent offset_grid"
  by (simp add: marker_absent_def offset_grid_def offset_marker_row_def marker_has_marker)

lemma wide_first_13: "first_13_columns wide_grid = example_grid"
  by (simp add: first_13_columns_def wide_grid_def example_grid_def marker_row_def aceh_row_def
      total_row_def)

lemma wide_first_col: "first_col_match wide_grid 0"
  by (simp add: first_col_match_def wide_grid_def marker_row_def col_def marker_has_marker)

lemma aceh_row_no_marker: "\<not> list_ex has_marker aceh_row"
  by (simp add: aceh_row_def short_text_no_marker ustr_def)

lemma empty_row_no_marker: "\<not> list_ex has_marker (replicate n Empty)"
  by (simp add: list_ex_iff empty_no_marker)

lemma offset_marker_rows: "marker_rows offset_grid = [1]"
proof -
  have u: "[0 ..< length (rows offset_grid)] = [0, 1, 2]"
    by (simp add: offset_grid_def upt_rec)
  have f: "\<not> first_col_match offset_grid 0" "\<not> first_col_match offset_grid (Suc 0)"
    "\<not> first_col_match offset_grid 2"
    by (simp_all add: first_col_match_def offset_grid_def offset_marker_row_def col_def
        empty_no_marker aceh_row_def short_text_no_marker ustr_def)
  have a: "\<not> any_cell_match offset_grid 0" "any_cell_match offset_grid (Suc 0)"
    "\<not> any_cell_match offset_grid 2"
    by (simp_all add: any_cell_match_def offset_grid_def offset_marker_row_def
        empty_row_no_marker aceh_row_no_marker marker_has_marker)
  show ?thesis
    unfolding marker_rows_def Let_def u by (simp add: f a)
qed

lemma offset_select:
  "select_rows (map (take 13) (drop (Suc (Suc 0)) (rows offset_grid))) = [aceh_row]"
  by (simp add: select_rows_def offset_grid_def aceh_row_def col_def is_na_def
      py_str_def ustr_def startswith_def hyphen_def)












lemma no_marker_grid_extract:
  "extract_province_section no_marker_grid 2023 = Inl StructureError"
  using extract_no_marker [OF marker_absent_rows [OF no_marker_grid_absent], of 2023]
  by (simp add: no_marker_grid_def)

lemma empty_grid_extract: "extract_province_section empty_grid 2023 = Inl IndexError"
  by (simp add: extract_province_section_def empty_grid_def)

section \<open>The claims\<close>

text \<open>
  C1 (at the failing input). The frame without columns, which is what an empty sheet
  gives, has no cell with the marker. The extraction stops on it at the lookup of the
  first column (line 61) with the \<open>IndexError\<close>, before the marker is searched, and
  does not reach the \<open>StructureError\<close> of line 77; a frame with a column and no
  marker does reach it.
\<close>

theorem empty_frame_index_error:
  "marker_absent empty_grid \<and>
   extract_province_section empty_grid 2023 = Inl IndexError \<and>
   extract_province_section empty_grid 2023 \<noteq> Inl StructureError \<and>
   marker_absent no_marker_grid \<and>
   extract_province_section no_marker_grid 2023 = Inl StructureError"
  by (simp add: empty_grid_absent empty_grid_extract no_marker_grid_absent
      no_marker_grid_extract)




text \<open>
  C3 (as stated). A frame whose only column holds the marker contains the marker and
  has fewer than thirteen columns; the extraction does not succeed on it: naming the
  columns fails with a length mismatch.
\<close>

theorem narrow_grid_counterexample:
  "\<not> marker_absent narrow_grid \<and> ncols narrow_grid < 13 \<and>
   extract_province_section narrow_grid 2023 = Inl LengthMismatch"
proof -
  have "marker_rows narrow_grid \<noteq> []" by (rule marker_present_rows) (rule narrow_grid_present)
  moreover have "0 < ncols narrow_grid" "ncols narrow_grid < 13" by (simp_all add: narrow_grid_def)
  ultimately show ?thesis by (simp add: extract_narrow narrow_grid_present)
qed

text \<open>
  C3 (amended). A frame with the marker and fewer than thirteen columns (at least one)
  is not padded: the extraction fails with a length mismatch. With thirteen columns or
  more, the result depends on the first thirteen columns and on the place of the marker
  only: two such frames with the marker, the same marker rows and the same first
  thirteen columns give the same result, and when a first cell holds the marker, the frame and the frame
  cut to its first thirteen columns give the same result.
\<close>

theorem thirteen_columns:
  "(\<not> marker_absent g \<and> 0 < ncols g \<and> ncols g < 13 \<longrightarrow>
      extract_province_section g year = Inl LengthMismatch) \<and>
   (\<not> marker_absent g \<and> 13 \<le> ncols g \<and> 13 \<le> ncols g' \<and> marker_rows g = marker_rows g' \<and>
    map (take 13) (rows g) = map (take 13) (rows g') \<longrightarrow>
      extract_province_section g year = extract_province_section g' year) \<and>
   (13 \<le> ncols g \<and> (\<exists>j<length (rows g). first_col_match g j) \<longrightarrow>
      extract_province_section g year = extract_province_section (first_13_columns g) year)"
proof (intro conjI impI)
  assume "\<not> marker_absent g \<and> 0 < ncols g \<and> ncols g < 13"
  then show "extract_province_section g year = Inl LengthMismatch"
    by (simp add: extract_narrow marker_present_rows)
next
  assume "\<not> marker_absent g \<and> 13 \<le> ncols g \<and> 13 \<le> ncols g' \<and>
    marker_rows g = marker_rows g' \<and> map (take 13) (rows g) = map (take 13) (rows g')"
  then show "extract_province_section g year = extract_province_section g' year"
    by (simp add: extract_depends_on_13)
next
  assume a: "13 \<le> ncols g \<and> (\<exists>j<length (rows g). first_col_match g j)"
  then obtain j where "j < length (rows g)" "first_col_match g j" by blast
  then have "marker_rows g = marker_rows (first_13_columns g)"
    by (simp add: first_13_marker_rows)
  moreover have "13 \<le> ncols (first_13_columns g)"
    using a by (simp add: first_13_columns_def)
  moreover have "map (take 13) (rows g) = map (take 13) (rows (first_13_columns g))"
    by (simp add: first_13_columns_def)
  ultimately show "extract_province_section g year = extract_province_section (first_13_columns g) year"
    using a by (intro extract_depends_on_13) simp_all
qed

theorem thirteen_columns_witness:
  "extract_province_section narrow_grid 2023 = Inl LengthMismatch \<and>
   ncols wide_grid = 14 \<and>
   extract_province_section wide_grid 2023 = extract_province_section example_grid 2023 \<and>
   extract_province_section wide_grid 2023 = Inr [aceh_2023]"
proof -
  have n: "0 < ncols narrow_grid" "ncols narrow_grid < 13" by (simp_all add: narrow_grid_def)
  have w: "13 \<le> ncols wide_grid" "ncols wide_grid = 14" "0 < length (rows wide_grid)"
    by (simp_all add: wide_grid_def)
  have "\<exists>j<length (rows wide_grid). first_col_match wide_grid j"
    using w(3) wide_first_col by blast
  with thirteen_columns [of wide_grid 2023 wide_grid] w(1)
  have "extract_province_section wide_grid 2023 = extract_province_section example_grid 2023"
    by (simp add: wide_first_13)
  moreover from thirteen_columns [of narrow_grid 2023 narrow_grid] n narrow_grid_present
  have "extract_province_section narrow_grid 2023 = Inl LengthMismatch" by simp
  ultimately show ?thesis by (simp add: w(2) example_extract)
qed




text \<open>
  C5. In every record that the extraction returns, the total is the float sum, taken
  from left to right, of the event count, the deaths and missing, the injuries, the
  displaced and affected and the three house-damage fields of that record.
\<close>

theorem total_is_sum_of_seven:
  assumes "extract_province_section df_raw year = Inr recs" and "p \<in> set recs"
  shows "Total_Dampak_Indikator p =
           fadd (fadd (fadd (fadd (fadd (fadd (Jumlah_Kejadian p) (Meninggal_Hilang p)) (Luka_Luka p))
             (Mengungsi_Terdampak p)) (Rumah_Rusak_Berat p)) (Rumah_Rusak_Sedang p))
             (Rumah_Rusak_Ringan p)"
proof -
  from extract_record_row [OF assms] obtain r where "normalise_row year (take 13 r) = Inr p"
    by blast
  then show ?thesis by (simp add: normalise_row_fields)
qed

theorem total_is_sum_of_seven_witness:
  "extract_province_section example_grid 2023 = Inr [aceh_2023] \<and>
   Total_Dampak_Indikator aceh_2023 =
     fadd (fadd (fadd (fadd (fadd (fadd (Fin 5) (Fin 2)) (Fin 0)) (Fin 100)) (Fin 0)) (Fin 0)) (Fin 0) \<and>
   Total_Dampak_Indikator aceh_2023 = Fin 107"
  using total_is_sum_of_seven [OF example_extract, of aceh_2023] example_extract
  by (simp add: aceh_2023_def round_double_numeral)

text \<open>
  C6. In a frame with the marker in some cell, the marker row is the first row whose
  first cell contains the marker when there is such a row, and otherwise the first row
  with the marker in any cell; with the thirteen columns present, the records are made
  from the rows strictly after it.
\<close>

theorem marker_row_first_match:
  assumes "\<not> marker_absent df_raw"
  shows "\<exists>i rest. marker_rows df_raw = i # rest \<and> i < length (rows df_raw) \<and>
           ((\<exists>j<length (rows df_raw). first_col_match df_raw j) \<longrightarrow>
              first_col_match df_raw i \<and> (\<forall>j<i. \<not> first_col_match df_raw j)) \<and>
           ((\<forall>j<length (rows df_raw). \<not> first_col_match df_raw j) \<longrightarrow>
              any_cell_match df_raw i \<and> (\<forall>j<i. \<not> any_cell_match df_raw j)) \<and>
           (13 \<le> ncols df_raw \<longrightarrow>
              extract_province_section df_raw year =
                map_err (normalise_row year)
                  (select_rows (map (take 13) (drop (Suc i) (rows df_raw)))))"
proof -
  from marker_present_rows [OF assms] obtain i rest where m: "marker_rows df_raw = i # rest"
    by (cases "marker_rows df_raw") auto
  let ?n = "length (rows df_raw)"
  have first: "first_col_match df_raw i \<and> (\<forall>j<i. \<not> first_col_match df_raw j) \<and> i < ?n"
    if "\<exists>j<?n. first_col_match df_raw j"
  proof -
    from that obtain j where "j < ?n" "first_col_match df_raw j" by blast
    from filter_upt_first [OF marker_rows_first_col [OF m this]] show ?thesis by blast
  qed
  have fallback: "any_cell_match df_raw i \<and> (\<forall>j<i. \<not> any_cell_match df_raw j) \<and> i < ?n"
    if "\<forall>j<?n. \<not> first_col_match df_raw j"
    using filter_upt_first [OF marker_rows_fallback [OF m that]] by blast
  have "i < ?n" using first fallback by blast
  moreover have "13 \<le> ncols df_raw \<longrightarrow>
      extract_province_section df_raw year =
        map_err (normalise_row year) (select_rows (map (take 13) (drop (Suc i) (rows df_raw))))"
    using extract_rows [OF m] by blast
  ultimately show ?thesis using m first fallback by blast
qed

theorem marker_row_first_match_witness:
  "marker_rows example_grid = [0] \<and> first_col_match example_grid 0 \<and>
   marker_rows offset_grid = [1] \<and> any_cell_match offset_grid 1 \<and>
   \<not> any_cell_match offset_grid 0 \<and>
   extract_province_section offset_grid 2023 = Inr [aceh_2023]"
proof -
  have n: "length (rows example_grid) = 3" "length (rows offset_grid) = 3"
    "13 \<le> ncols offset_grid"
    by (simp_all add: example_grid_def offset_grid_def)
  have f: "first_col_match example_grid 0"
    by (simp add: first_col_match_def example_grid_def marker_row_def col_def marker_has_marker)
  have nf: "\<forall>j<length (rows offset_grid). \<not> first_col_match offset_grid j"
  proof (intro allI impI)
    fix j assume "j < length (rows offset_grid)"
    then have "j = 0 \<or> j = Suc 0 \<or> j = 2" using n(2) by linarith
    then show "\<not> first_col_match offset_grid j"
      by (auto simp add: first_col_match_def offset_grid_def offset_marker_row_def col_def
          empty_no_marker aceh_row_def short_text_no_marker ustr_def)
  qed
  from marker_row_first_match [OF example_grid_present, of 2023] f
  have a: "first_col_match example_grid 0"
    by (simp add: example_marker_rows)
  from marker_row_first_match [OF offset_grid_present, of 2023] nf n(3)
  have b: "any_cell_match offset_grid 1 \<and> \<not> any_cell_match offset_grid 0 \<and>
      extract_province_section offset_grid 2023 =
        map_err (normalise_row 2023) (select_rows (map (take 13) (drop (Suc 1) (rows offset_grid))))"
    by (simp add: offset_marker_rows)
  then show ?thesis
    using a by (simp add: example_marker_rows offset_marker_rows offset_select aceh_row_record)
qed

text \<open>
  C7. The numeric coercion gives exactly 0 for a text whose trimmed form is the hyphen,
  the em dash, the en dash or the empty text, and for a missing cell.
\<close>

theorem to_number_no_data:
  "(py_strip t \<in> {hyphen, em_dash, en_dash, []} \<longrightarrow> to_number (Text t) = Inr (Fin 0)) \<and>
   (is_na x \<longrightarrow> to_number x = Inr (Fin 0))"
  by (simp add: to_number_placeholder to_number_na)

theorem to_number_no_data_witness:
  "to_number (Text (ustr '' - '')) = Inr (Fin 0) \<and> to_number (Text [32, 8212]) = Inr (Fin 0) \<and>
   to_number (Text [8211]) = Inr (Fin 0) \<and> to_number (Text (ustr ''  '')) = Inr (Fin 0) \<and>
   to_number Empty = Inr (Fin 0) \<and> to_number (FloatCell NaN) = Inr (Fin 0)"
proof -
  have s: "py_strip (ustr '' - '') = hyphen" "py_strip [32, 8212] = em_dash"
    "py_strip [8211] = en_dash" "py_strip (ustr ''  '') = []"
    by (simp_all add: py_strip_def ustr_def is_space_def hyphen_def em_dash_def en_dash_def)
  have n: "is_na Empty" "is_na (FloatCell NaN)" by (simp_all add: is_na_def)
  show ?thesis
    using to_number_no_data [of "ustr '' - ''" Empty] to_number_no_data [of "[32, 8212]" "FloatCell NaN"]
      to_number_no_data [of "[8211]" Empty] to_number_no_data [of "ustr ''  ''" Empty]
    by (simp add: s n)
qed

text \<open>
  C8. For a text made of ASCII digits and commas, with at least one digit, the numeric
  coercion gives the float of the number the digits denote, the commas removed: the
  double nearest to it, which is the number itself below \<open>2 ^ 53\<close>.
\<close>

theorem to_number_thousands:
  assumes "list_all (\<lambda>c. ascii_digit c \<or> c = 44) s" and "list_ex ascii_digit s"
  shows "to_number (Text s) = Inr (round_double (of_nat (dec_value (remove_commas s)))) \<and>
         (dec_value (remove_commas s) < 2 ^ 53 \<longrightarrow>
            to_number (Text s) = Inr (Fin (of_nat (dec_value (remove_commas s)))))"
proof -
  have "round_double (of_int (int n)) = Fin (of_int (int n))" if "n < 2 ^ 53" for n :: nat
  proof -
    have "int n < 2 ^ 53" using that by (metis of_nat_less_iff of_nat_numeral of_nat_power)
    then show ?thesis by (intro round_double_int) simp
  qed
  then show ?thesis
    using to_number_comma_digits [OF assms] by simp
qed

theorem to_number_thousands_witness:
  "to_number (Text (ustr ''1,234'')) = Inr (Fin 1234)"
  using to_number_thousands [of "ustr ''1,234''"]
  by (simp add: ustr_def ascii_digit_def remove_commas_def dec_value_def round_double_numeral)

text \<open>
  C9. The numeric coercion returns for every cell: a text that \<open>float\<close> rejects and an
  integer beyond the doubles give 0, and a row can fail to be normalised only through
  its code, never through a numeric cell.
\<close>

theorem to_number_never_raises:
  "(\<exists>v. to_number x = Inr v) \<and>
   (float_of_str (remove_commas (py_strip t)) = Inl e \<longrightarrow> to_number (Text t) = Inr (Fin 0)) \<and>
   (float_of_int i = Inl e \<longrightarrow> to_number (IntCell i) = Inr (Fin 0)) \<and>
   (normalise_row year r = Inl e \<longrightarrow> clean_code (col 0 r) = Inl e)"
proof (intro conjI impI)
  show "\<exists>v. to_number x = Inr v" by (rule to_number_returns)
  show "to_number (Text t) = Inr (Fin 0)" if "float_of_str (remove_commas (py_strip t)) = Inl e"
    using that by (rule to_number_unparseable)
  show "to_number (IntCell i) = Inr (Fin 0)" if "float_of_int i = Inl e"
    using that by (simp add: to_number_def is_na_def)
  show "clean_code (col 0 r) = Inl e" if "normalise_row year r = Inl e"
    using that by (rule normalise_row_fails)
qed

theorem to_number_never_raises_witness:
  "to_number (Text (ustr ''abc'')) = Inr (Fin 0) \<and>
   to_number (IntCell (2 ^ 1024)) = Inr (Fin 0) \<and>
   normalise_row 2023 superscript_code_row = Inl ValueError \<and>
   clean_code (col 0 superscript_code_row) = Inl ValueError"
proof -
  have r: "normalise_row 2023 superscript_code_row = Inl ValueError"
    by (simp add: normalise_row_def superscript_code_row_def col_def clean_code_superscript)
  show ?thesis
    using to_number_never_raises [of "Text (ustr ''abc'')" "ustr ''abc''" ValueError "2 ^ 1024" 2023
        superscript_code_row]
      to_number_never_raises [of Empty "[]" OverflowError "2 ^ 1024" 2023 "[]"]
    by (simp only: to_number_abc_arg float_of_str_abc float_of_int_overflow r simp_thms)
qed

text \<open>
  C10. Merging two tables gives a table whose length is the sum of the two lengths and
  whose rows are the rows of the first table, in order and unchanged, followed by the
  rows of the second, in order and unchanged: nothing is dropped, reordered or rewritten.
\<close>

theorem pd_concat_two_tables:
  "pd_concat [t1, t2] = t1 @ t2 \<and>
   length (pd_concat [t1, t2]) = length t1 + length t2 \<and>
   (\<forall>i<length t1. pd_concat [t1, t2] ! i = t1 ! i) \<and>
   (\<forall>i<length t2. pd_concat [t1, t2] ! (length t1 + i) = t2 ! i)"
  by (simp add: pd_concat_def nth_append)

theorem pd_concat_two_tables_witness:
  "pd_concat [[aceh_2023], [bali_2024]] = [aceh_2023, bali_2024] \<and>
   length (pd_concat [[aceh_2023], [bali_2024]]) = 2 \<and>
   pd_concat [[aceh_2023], [bali_2024]] ! 0 = aceh_2023 \<and>
   pd_concat [[aceh_2023], [bali_2024]] ! 1 = bali_2024 \<and>
   Tahun (pd_concat [[aceh_2023], [bali_2024]] ! 1) = 2024"
  using pd_concat_two_tables [of "[aceh_2023]" "[bali_2024]"]
  by (simp add: bali_2024_def)

end
